theory Spec2Isabelle
  imports Main
begin

section \<open>Text primitives\<close>

text \<open>
  Python's \<open>str\<close> is a sequence of code points. The model uses HOL strings, so it covers
  text whose code points are below 256; on that range the tables below are those of
  \<open>str.lower\<close>, \<open>str.isspace\<close> (which is also what \<open>\s\<close> matches in a \<open>str\<close> pattern)
  and of \<open>\w\<close>.
\<close>

definition lower_char :: "char \<Rightarrow> char" where
  "lower_char c =
     (let n = (of_char c :: nat)
      in if (65 \<le> n \<and> n \<le> 90) \<or> (192 \<le> n \<and> n \<le> 222 \<and> n \<noteq> 215)
         then char_of (n + 32) else c)"

definition lower :: "string \<Rightarrow> string" where
  "lower s = map lower_char s"

definition isspace :: "char \<Rightarrow> bool" where
  "isspace c =
     (let n = (of_char c :: nat)
      in (9 \<le> n \<and> n \<le> 13) \<or> (28 \<le> n \<and> n \<le> 32) \<or> n = 133 \<or> n = 160)"

definition isword :: "char \<Rightarrow> bool" where
  "isword c =
     (let n = (of_char c :: nat)
      in (48 \<le> n \<and> n \<le> 57) \<or> (65 \<le> n \<and> n \<le> 90) \<or> n = 95 \<or> (97 \<le> n \<and> n \<le> 122)
         \<or> n = 170 \<or> n = 178 \<or> n = 179 \<or> n = 181 \<or> n = 185 \<or> n = 186
         \<or> (188 \<le> n \<and> n \<le> 190) \<or> (192 \<le> n \<and> n \<le> 214) \<or> (216 \<le> n \<and> n \<le> 246)
         \<or> 248 \<le> n)"

definition ascii_alnum :: "char \<Rightarrow> bool" where
  "ascii_alnum c =
     (let n = (of_char c :: nat)
      in (48 \<le> n \<and> n \<le> 57) \<or> (65 \<le> n \<and> n \<le> 90) \<or> (97 \<le> n \<and> n \<le> 122))"

definition strip :: "string \<Rightarrow> string" where
  "strip s = rev (dropWhile isspace (rev (dropWhile isspace s)))"

text \<open>\<open>p in s\<close> for two strings.\<close>

definition contains :: "string \<Rightarrow> string \<Rightarrow> bool" where
  "contains p s = list_ex (\<lambda>i. take (length p) (drop i s) = p) [0..<Suc (length s)]"

text \<open>
  \<open>str.splitlines\<close>: a line ends at \<open>\n\<close>, \<open>\r\<close>, \<open>\r\n\<close>, \<open>\v\<close>, \<open>\f\<close>, the separators
  \<open>\x1c\<close> to \<open>\x1e\<close> and \<open>\x85\<close>; the line ends are dropped and a text that ends with one has no
  empty last line.
\<close>

definition is_linebreak :: "char \<Rightarrow> bool" where
  "is_linebreak c =
     (let n = (of_char c :: nat)
      in (10 \<le> n \<and> n \<le> 13) \<or> (28 \<le> n \<and> n \<le> 30) \<or> n = 133)"

fun splitlines_from :: "string \<Rightarrow> string \<Rightarrow> string list" where
  "splitlines_from cur [] = (if cur = [] then [] else [cur])"
| "splitlines_from cur (c # cs) =
     (if c = CHR 0x0D then
        (case cs of
           [] \<Rightarrow> [cur]
         | d # ds \<Rightarrow> if d = CHR 0x0A then cur # splitlines_from [] ds
                    else cur # splitlines_from [] (d # ds))
      else if is_linebreak c then cur # splitlines_from [] cs
      else splitlines_from (cur @ [c]) cs)"

definition splitlines :: "string \<Rightarrow> string list" where
  "splitlines s = splitlines_from [] s"

text \<open>
  The exceptions the modelled code can raise. \<open>NotModelled\<close> is no Python exception: it marks
  regular-expression syntax outside the fragment that the model of \<open>re\<close> below covers.
\<close>

datatype py_error = AttributeError | re_error | NotModelled

section \<open>Risk levels and the risk score (imp_risk_scorer.py)\<close>

datatype RiskLevel = NONE | LOW | MEDIUM | HIGH | CRITICAL

fun risk_value :: "RiskLevel \<Rightarrow> int" where
  "risk_value NONE = 0"
| "risk_value LOW = 1"
| "risk_value MEDIUM = 2"
| "risk_value HIGH = 3"
| "risk_value CRITICAL = 4"

text \<open>
  \<open>RiskLevel.to_string\<close>: the dictionary lookup falls back to \<open>"Unknown"\<close> for an argument
  that is no member of the enum; on the five members the lookup always succeeds.
\<close>

fun to_string :: "RiskLevel \<Rightarrow> string" where
  "to_string NONE = ''None''"
| "to_string LOW = ''Low''"
| "to_string MEDIUM = ''Medium''"
| "to_string HIGH = ''High''"
| "to_string CRITICAL = ''Critical''"

definition level_map :: "(string \<times> RiskLevel) list" where
  "level_map =
     [(''none'', NONE), (''low'', LOW), (''medium'', MEDIUM), (''high'', HIGH),
      (''critical'', CRITICAL)]"

text \<open>
  \<open>RiskLevel.from_string\<close>: \<open>level_map.get(level_str.lower(), cls.LOW)\<close>. The argument is
  \<open>Some s\<close> for a string and \<open>None\<close> for Python's \<open>None\<close>, on which \<open>.lower()\<close> raises.
\<close>

definition from_string :: "string option \<Rightarrow> py_error + RiskLevel" where
  "from_string level_str =
     (case level_str of
        None \<Rightarrow> Inl AttributeError
      | Some s \<Rightarrow>
          (case map_of level_map (lower s) of
             Some l \<Rightarrow> Inr l
           | None \<Rightarrow> Inr LOW))"

fun get_risk_weight :: "RiskLevel \<Rightarrow> int" where
  "get_risk_weight NONE = 0"
| "get_risk_weight LOW = 1"
| "get_risk_weight MEDIUM = 3"
| "get_risk_weight HIGH = 7"
| "get_risk_weight CRITICAL = 15"

record vulnerability =
  v_name :: string
  v_description :: string
  v_risk_level :: RiskLevel
  v_risk_level_str :: string
  v_category :: string
  v_location :: "string option"
  v_remediation :: "string option"

record category_stats =
  cs_count :: int
  cs_max_level :: RiskLevel
  cs_score :: int

text \<open>
  \<open>risk_categories\<close> is a dictionary; it is kept as an association list in insertion
  order, which is the order \<open>get_summary\<close> iterates it in.
\<close>

record RiskScore =
  vulnerabilities :: "vulnerability list"
  total_score :: int
  max_risk_level :: RiskLevel
  risk_categories :: "(string \<times> category_stats) list"

definition RiskScore_init :: RiskScore where
  "RiskScore_init =
     \<lparr>vulnerabilities = [], total_score = 0, max_risk_level = NONE, risk_categories = []\<rparr>"

text \<open>\<open>d[k] = f(d[k])\<close> for a key that is present.\<close>

fun dict_modify :: "'k \<Rightarrow> ('v \<Rightarrow> 'v) \<Rightarrow> ('k \<times> 'v) list \<Rightarrow> ('k \<times> 'v) list" where
  "dict_modify k f [] = []"
| "dict_modify k f ((k', v) # d) =
     (if k' = k then (k', f v) # d else (k', v) # dict_modify k f d)"

definition add_vulnerability ::
  "RiskScore \<Rightarrow> string \<Rightarrow> string \<Rightarrow> RiskLevel \<Rightarrow> string \<Rightarrow> string option \<Rightarrow> string option
     \<Rightarrow> RiskScore" where
  "add_vulnerability rs name description risk_level category location remediation =
     (let vuln = \<lparr>v_name = name, v_description = description, v_risk_level = risk_level,
                  v_risk_level_str = to_string risk_level, v_category = category,
                  v_location = location, v_remediation = remediation\<rparr>;
          vulns = vulnerabilities rs @ [vuln];
          max_level = (if risk_value risk_level > risk_value (max_risk_level rs)
                       then risk_level else max_risk_level rs);
          cats0 = (if category \<notin> fst ` set (risk_categories rs)
                   then risk_categories rs @
                        [(category, \<lparr>cs_count = 0, cs_max_level = NONE, cs_score = 0\<rparr>)]
                   else risk_categories rs);
          cats1 = dict_modify category (\<lambda>st. st\<lparr>cs_count := cs_count st + 1\<rparr>) cats0;
          cats2 = dict_modify category
                    (\<lambda>st. if risk_value risk_level > risk_value (cs_max_level st)
                          then st\<lparr>cs_max_level := risk_level\<rparr> else st) cats1;
          weight = get_risk_weight risk_level;
          cats3 = dict_modify category (\<lambda>st. st\<lparr>cs_score := cs_score st + weight\<rparr>) cats2
      in \<lparr>vulnerabilities = vulns, total_score = total_score rs + weight,
          max_risk_level = max_level, risk_categories = cats3\<rparr>)"

definition get_overall_risk_level :: "RiskScore \<Rightarrow> RiskLevel" where
  "get_overall_risk_level rs =
     (if total_score rs = 0 then NONE
      else if total_score rs < 3 then LOW
      else if total_score rs < 8 then MEDIUM
      else if total_score rs < 18 then HIGH
      else CRITICAL)"

record risk_distribution =
  rd_none :: int
  rd_low :: int
  rd_medium :: int
  rd_high :: int
  rd_critical :: int

record category_summary =
  csum_count :: int
  csum_max_level :: string
  csum_score :: int

record summary =
  s_total_score :: int
  s_overall_risk_level :: RiskLevel
  s_overall_risk_str :: string
  s_vulnerability_count :: int
  s_risk_distribution :: risk_distribution
  s_categories :: "(string \<times> category_summary) list"

text \<open>
  The counting loop of \<open>get_summary\<close>: \<open>level_counts[vuln['risk_level']] += 1\<close> over the
  recorded vulnerabilities, from the all-zero table.
\<close>

fun level_counts :: "vulnerability list \<Rightarrow> (RiskLevel \<Rightarrow> int) \<Rightarrow> (RiskLevel \<Rightarrow> int)" where
  "level_counts [] t = t"
| "level_counts (v # vs) t = level_counts vs (t(v_risk_level v := t (v_risk_level v) + 1))"

definition get_summary :: "RiskScore \<Rightarrow> summary" where
  "get_summary rs =
     (let vulnerability_count = int (length (vulnerabilities rs));
          counts = level_counts (vulnerabilities rs) (\<lambda>_. 0);
          overall_level = get_overall_risk_level rs
      in \<lparr>s_total_score = total_score rs,
          s_overall_risk_level = overall_level,
          s_overall_risk_str = to_string overall_level,
          s_vulnerability_count = vulnerability_count,
          s_risk_distribution =
            \<lparr>rd_none = counts NONE, rd_low = counts LOW, rd_medium = counts MEDIUM,
             rd_high = counts HIGH, rd_critical = counts CRITICAL\<rparr>,
          s_categories =
            map (\<lambda>(category, stats).
                   (category, \<lparr>csum_count = cs_count stats,
                               csum_max_level = to_string (cs_max_level stats),
                               csum_score = cs_score stats\<rparr>))
                (risk_categories rs)\<rparr>)"

text \<open>The bucket of the histogram that a level is counted in.\<close>

fun bucket :: "RiskLevel \<Rightarrow> risk_distribution \<Rightarrow> int" where
  "bucket NONE d = rd_none d"
| "bucket LOW d = rd_low d"
| "bucket MEDIUM d = rd_medium d"
| "bucket HIGH d = rd_high d"
| "bucket CRITICAL d = rd_critical d"

text \<open>One call of \<open>add_vulnerability\<close> with its arguments, and a sequence of calls.\<close>

record finding =
  f_name :: string
  f_description :: string
  f_risk_level :: RiskLevel
  f_category :: string
  f_location :: "string option"
  f_remediation :: "string option"

definition add_finding :: "RiskScore \<Rightarrow> finding \<Rightarrow> RiskScore" where
  "add_finding rs f =
     add_vulnerability rs (f_name f) (f_description f) (f_risk_level f) (f_category f)
       (f_location f) (f_remediation f)"

definition aggregate :: "finding list \<Rightarrow> RiskScore" where
  "aggregate fs = foldl add_finding RiskScore_init fs"

subsection \<open>The scorers' entry points\<close>

text \<open>
  \<open>LegalContractRiskScorer.analyze_contract\<close> on the scorer's current \<open>risk_score\<close>. The
  three checks that run on a non-empty text are arguments: each mutates the risk score, so
  each is a function from the score and the text to the new score.
\<close>

definition analyze_contract ::
  "(RiskScore \<Rightarrow> string \<Rightarrow> RiskScore) \<Rightarrow> (RiskScore \<Rightarrow> string \<Rightarrow> RiskScore)
     \<Rightarrow> (RiskScore \<Rightarrow> string \<Rightarrow> RiskScore) \<Rightarrow> RiskScore \<Rightarrow> string \<Rightarrow> RiskScore" where
  "analyze_contract check_missing_clauses check_ambiguous_terms check_unbalanced_rights
       risk_score contract_text =
     (if contract_text = [] then
        add_vulnerability risk_score ''Empty contract''
          ''The contract text is empty or could not be extracted'' CRITICAL ''Completeness''
          None (Some ''Provide a valid contract document with proper text content.'')
      else
        check_unbalanced_rights
          (check_ambiguous_terms (check_missing_clauses risk_score contract_text) contract_text)
          contract_text)"

text \<open>\<open>SmartContractRiskScorer.analyze_contract_code\<close>, in the same way.\<close>

definition analyze_contract_code ::
  "(RiskScore \<Rightarrow> string \<Rightarrow> RiskScore) \<Rightarrow> (RiskScore \<Rightarrow> string \<Rightarrow> RiskScore)
     \<Rightarrow> (RiskScore \<Rightarrow> string \<Rightarrow> RiskScore) \<Rightarrow> RiskScore \<Rightarrow> string \<Rightarrow> RiskScore" where
  "analyze_contract_code check_vulnerability_patterns analyze_gas_usage check_best_practices
       risk_score contract_code =
     (if contract_code = [] then
        add_vulnerability risk_score ''Empty contract code'' ''The contract code is empty''
          CRITICAL ''Completeness'' None (Some ''Provide valid contract code.'')
      else
        check_best_practices
          (analyze_gas_usage (check_vulnerability_patterns risk_score contract_code)
             contract_code)
          contract_code)"

section \<open>Regular expressions (the part of \<open>re\<close> that the detectors use)\<close>

text \<open>
  The patterns of the custom rules and of the pattern model are built from literal
  characters, escaped characters, \<open>\s\<close>, \<open>\w\<close>, the repetitions \<open>+\<close> and \<open>*\<close>, groups and
  alternatives. \<open>re_compile\<close> parses this fragment; for any other syntax it answers
  \<open>NotModelled\<close>. A pattern that \<open>re\<close> rejects inside the fragment (a trailing backslash,
  nothing to repeat, unbalanced parentheses) gives \<open>re_error\<close>.
\<close>

abbreviation (input) bs :: char where
  "bs \<equiv> CHR 0x5C"

datatype regex = Chr char | Space | Word | Eps | Seq regex regex | Alt regex regex | Star regex

datatype token = TAtom regex | TPlus | TStar | TOpen | TClose | TBar

fun tokenize :: "string \<Rightarrow> py_error + token list" where
  "tokenize [] = Inr []"
| "tokenize (c # cs) =
     (if c = bs then
        (case cs of
           [] \<Rightarrow> Inl re_error
         | d # ds \<Rightarrow>
             if d = CHR ''s'' then map_sum id ((#) (TAtom Space)) (tokenize ds)
             else if d = CHR ''w'' then map_sum id ((#) (TAtom Word)) (tokenize ds)
             else if ascii_alnum d then Inl NotModelled
             else map_sum id ((#) (TAtom (Chr d))) (tokenize ds))
      else if c = CHR ''+'' then map_sum id ((#) TPlus) (tokenize cs)
      else if c = CHR ''*'' then map_sum id ((#) TStar) (tokenize cs)
      else if c = CHR ''('' then map_sum id ((#) TOpen) (tokenize cs)
      else if c = CHR '')'' then map_sum id ((#) TClose) (tokenize cs)
      else if c = CHR ''|'' then map_sum id ((#) TBar) (tokenize cs)
      else if c \<in> set ''.^$?{}[]'' then Inl NotModelled
      else map_sum id ((#) (TAtom (Chr c))) (tokenize cs))"

definition seq_of :: "regex list \<Rightarrow> regex" where
  "seq_of items = foldr Seq items Eps"

fun alt_of :: "regex list \<Rightarrow> regex" where
  "alt_of [] = Eps"
| "alt_of [r] = r"
| "alt_of (r # rs) = Alt r (alt_of rs)"

text \<open>
  A frame of the parser is an open group (or the whole pattern): the alternatives that are
  complete, and the items of the alternative being read.
\<close>

type_synonym frame = "regex list \<times> regex list"

definition close_frame :: "frame \<Rightarrow> regex" where
  "close_frame f = alt_of (fst f @ [seq_of (snd f)])"

fun repeated :: "token list \<Rightarrow> bool" where
  "repeated (TPlus # _) = True"
| "repeated (TStar # _) = True"
| "repeated _ = False"

fun parse :: "frame list \<Rightarrow> token list \<Rightarrow> py_error + regex" where
  "parse [] ts = Inl re_error"
| "parse [f] [] = Inr (close_frame f)"
| "parse (f # g # st) [] = Inl re_error"
| "parse ((alts, cur) # st) (TAtom a # ts) = parse ((alts, cur @ [a]) # st) ts"
| "parse ((alts, cur) # st) (TPlus # ts) =
     (if cur = [] then Inl re_error
      else if repeated ts then Inl NotModelled
      else parse ((alts, butlast cur @ [Seq (last cur) (Star (last cur))]) # st) ts)"
| "parse ((alts, cur) # st) (TStar # ts) =
     (if cur = [] then Inl re_error
      else if repeated ts then Inl NotModelled
      else parse ((alts, butlast cur @ [Star (last cur)]) # st) ts)"
| "parse ((alts, cur) # st) (TOpen # ts) = parse (([], []) # (alts, cur) # st) ts"
| "parse ((alts, cur) # st) (TBar # ts) = parse ((alts @ [seq_of cur], []) # st) ts"
| "parse ((alts, cur) # st) (TClose # ts) =
     (case st of
        [] \<Rightarrow> Inl re_error
      | (alts', cur') # st' \<Rightarrow> parse ((alts', cur' @ [close_frame (alts, cur)]) # st') ts)"

definition re_compile :: "string \<Rightarrow> py_error + regex" where
  "re_compile p = (case tokenize p of Inl e \<Rightarrow> Inl e | Inr ts \<Rightarrow> parse [([], [])] ts)"

text \<open>
  The matcher is the backtracking search of \<open>re\<close>: \<open>ends ic r s\<close> lists the lengths of the
  prefixes of \<open>s\<close> that \<open>r\<close> matches, in the order in which the engine tries them (the first
  alternative first, the longest repetition first), so that its head is the match that \<open>re\<close>
  reports at this position. \<open>ic\<close> is the flag \<open>re.IGNORECASE\<close>.
\<close>

fun ends :: "bool \<Rightarrow> regex \<Rightarrow> string \<Rightarrow> nat list" where
  "ends ic (Chr a) s =
     (case s of
        [] \<Rightarrow> []
      | c # _ \<Rightarrow> if (if ic then lower_char a = lower_char c else a = c) then [1] else [])"
| "ends ic Space s = (case s of [] \<Rightarrow> [] | c # _ \<Rightarrow> if isspace c then [1] else [])"
| "ends ic Word s = (case s of [] \<Rightarrow> [] | c # _ \<Rightarrow> if isword c then [1] else [])"
| "ends ic Eps s = [0]"
| "ends ic (Seq r1 r2) s =
     concat (map (\<lambda>n. map (\<lambda>m. n + m) (ends ic r2 (drop n s))) (ends ic r1 s))"
| "ends ic (Alt r1 r2) s = ends ic r1 s @ ends ic r2 s"
| "ends ic (Star r) s =
     concat (map (\<lambda>n. if 0 < n \<and> n \<le> length s
                        then map (\<lambda>m. n + m) (ends ic (Star r) (drop n s)) else [])
                 (ends ic r s)) @ [0]"

definition search_compiled :: "bool \<Rightarrow> regex \<Rightarrow> string \<Rightarrow> bool" where
  "search_compiled ic r s = list_ex (\<lambda>i. ends ic r (drop i s) \<noteq> []) [0..<Suc (length s)]"

text \<open>\<open>re.search(p, s, flags)\<close>, as far as its truth value goes.\<close>

definition re_search :: "bool \<Rightarrow> string \<Rightarrow> string \<Rightarrow> py_error + bool" where
  "re_search ic p s =
     (case re_compile p of Inl e \<Rightarrow> Inl e | Inr r \<Rightarrow> Inr (search_compiled ic r s))"

subsection \<open>\<open>re.escape\<close> and \<open>re.sub\<close>\<close>

text \<open>
  Two things that the pattern-model detector uses changed with Python 3.7. \<open>re.escape\<close>
  escapes only the characters that are special in a pattern, where it escaped every
  character but ASCII letters, digits and the underscore before. And a replacement template
  with an unknown escape of an ASCII letter, as \<open>\s\<close> and \<open>\w\<close> are there, is an error, where
  it was kept as it stands (with a deprecation warning) before. The script uses f-strings,
  so it needs Python 3.6 at least.
\<close>

datatype python = Py36 | Py37plus

definition special_chars :: string where
  "special_chars =
     ''()[]{}?*+-|^$'' @ [bs] @ ''.&~# '' @ [CHR 0x09, CHR 0x0A, CHR 0x0D, CHR 0x0B, CHR 0x0C]"

definition re_escape :: "python \<Rightarrow> string \<Rightarrow> string" where
  "re_escape py s =
     concat (map (\<lambda>c. case py of
                        Py37plus \<Rightarrow> if c \<in> set special_chars then [bs, c] else [c]
                      | Py36 \<Rightarrow> if ascii_alnum c \<or> c = CHR ''_'' then [c]
                                else if c = CHR 0x00 then bs # ''000'' else [bs, c]) s)"

text \<open>
  The replacement template, for templates without group references and without the
  escapes that stand for control characters: the text that replaces each match.
\<close>

fun expand_template :: "python \<Rightarrow> string \<Rightarrow> py_error + string" where
  "expand_template py [] = Inr []"
| "expand_template py (c # cs) =
     (if c = bs then
        (case cs of
           [] \<Rightarrow> Inl re_error
         | d # ds \<Rightarrow>
             if d = bs then map_sum id ((#) bs) (expand_template py ds)
             else if ascii_alnum d then
               (if d \<in> set ''abfnrtvg0123456789'' then Inl NotModelled
                else (case py of
                        Py37plus \<Rightarrow> Inl re_error
                      | Py36 \<Rightarrow> map_sum id (\<lambda>t. bs # d # t) (expand_template py ds)))
             else map_sum id (\<lambda>t. bs # d # t) (expand_template py ds))
      else map_sum id ((#) c) (expand_template py cs))"

text \<open>
  The replacement loop of \<open>re.sub\<close> without flags: the leftmost match is replaced, and the
  search goes on behind it. \<open>skip\<close> counts the characters of the current match that are
  still to be dropped. A match of the empty string is left alone; the two patterns that
  the detector substitutes cannot match it.
\<close>

fun sub_scan :: "regex \<Rightarrow> string \<Rightarrow> nat \<Rightarrow> string \<Rightarrow> string" where
  "sub_scan r rep skip [] = []"
| "sub_scan r rep skip (c # cs) =
     (if 0 < skip then sub_scan r rep (skip - 1) cs
      else (case ends False r (c # cs) of
              [] \<Rightarrow> c # sub_scan r rep 0 cs
            | n # _ \<Rightarrow> if 0 < n then rep @ sub_scan r rep (n - 1) cs
                      else c # sub_scan r rep 0 cs))"

text \<open>
  \<open>re.sub(p, repl, s)\<close>: the pattern is compiled, then the template, and only then is the
  string searched, so that a bad template raises whether or not the pattern occurs.
\<close>

definition re_sub :: "python \<Rightarrow> string \<Rightarrow> string \<Rightarrow> string \<Rightarrow> py_error + string" where
  "re_sub py p repl s =
     (case re_compile p of
        Inl e \<Rightarrow> Inl e
      | Inr r \<Rightarrow>
          (case expand_template py repl of
             Inl e \<Rightarrow> Inl e
           | Inr rep \<Rightarrow> Inr (sub_scan r rep 0 s)))"

section \<open>The detectors of loophole_detection.py\<close>

record source_mapping =
  sm_start :: int
  sm_length :: int
  sm_lines :: "int list"
  sm_filename_relative :: string

record element =
  e_type :: string
  e_name :: string
  e_source_mapping :: source_mapping

record detection =
  d_check :: string
  d_impact :: string
  d_confidence :: string
  d_description :: string
  d_elements :: "element list"

record rule =
  r_name :: string
  r_pattern :: string
  r_description :: string
  r_severity :: string

definition CUSTOM_RULES :: "rule list" where
  "CUSTOM_RULES =
     [\<lparr>r_name = ''Timestamp_Dependency'',
       r_pattern = ''block'' @ bs # ''.timestamp'',
       r_description = ''Use of block.timestamp, can be manipulated by miners.'',
       r_severity = ''Medium''\<rparr>,
      \<lparr>r_name = ''TX_Origin_Usage'',
       r_pattern = ''tx'' @ bs # ''.origin'',
       r_description = ''Use of tx.origin for authentication, vulnerable to phishing.'',
       r_severity = ''High''\<rparr>,
      \<lparr>r_name = ''Integer_Overflow_Underflow_Candidate_Basic'',
       r_pattern = bs # ''w+'' @ bs # ''s*('' @ bs # ''+'' @ bs # ''+|--|'' @ bs # ''+=|-=|''
                   @ bs # ''*=|/=)'' @ bs # ''s*'' @ bs # ''w+'',
       r_description = ''Potential basic integer arithmetic operation, needs careful review for overflow/underflow. Slither is much better at this.'',
       r_severity = ''Low''\<rparr>,
      \<lparr>r_name = ''Low_Level_Call'',
       r_pattern = bs # ''.(call|delegatecall|staticcall)'' @ bs # ''s*'' @ bs # ''('',
       r_description = ''Use of low-level calls (.call, .delegatecall, .staticcall), requires careful handling of return values and gas.'',
       r_severity = ''Medium''\<rparr>]"

definition line_element :: "string \<Rightarrow> int \<Rightarrow> string \<Rightarrow> element" where
  "line_element line line_num filename =
     \<lparr>e_type = ''line'', e_name = strip line,
      e_source_mapping = \<lparr>sm_start = - 1, sm_length = - 1, sm_lines = [line_num],
                          sm_filename_relative = filename\<rparr>\<rparr>"

text \<open>
  Both detectors run their loops inside one \<open>try\<close> block whose handler prints the exception
  and keeps the findings appended so far. \<open>scan\<close> is that loop over the flattened
  iterations: a step answers with an exception, with nothing, or with a finding to append.
\<close>

fun scan :: "('a \<Rightarrow> py_error + detection option) \<Rightarrow> detection list \<Rightarrow> 'a list
               \<Rightarrow> detection list \<times> py_error option" where
  "scan step findings [] = (findings, None)"
| "scan step findings (x # xs) =
     (case step x of
        Inl e \<Rightarrow> (findings, Some e)
      | Inr None \<Rightarrow> scan step findings xs
      | Inr (Some f) \<Rightarrow> scan step (findings @ [f]) xs)"

definition numbered_lines :: "string \<Rightarrow> (int \<times> string) list" where
  "numbered_lines content =
     (let ls = splitlines content in zip (map int [1..<Suc (length ls)]) ls)"

definition custom_rule_step :: "string \<Rightarrow> (int \<times> string) \<times> rule \<Rightarrow> py_error + detection option" where
  "custom_rule_step filename x =
     (case x of ((line_num, line), rule) \<Rightarrow>
        (case re_search True (r_pattern rule) line of
           Inl e \<Rightarrow> Inl e
         | Inr False \<Rightarrow> Inr None
         | Inr True \<Rightarrow>
             Inr (Some \<lparr>d_check = r_name rule, d_impact = r_severity rule,
                        d_confidence = ''Medium'',
                        d_description = r_description rule @ '' (Custom Rule Match)'',
                        d_elements = [line_element line line_num filename]\<rparr>)))"

text \<open>
  \<open>apply_custom_rules(filepath)\<close>. \<open>filename\<close> is \<open>os.path.basename(filepath)\<close>, and \<open>file\<close> is
  the text read from the file, or \<open>None\<close> when opening or decoding it raises.
\<close>

definition apply_rules :: "rule list \<Rightarrow> string \<Rightarrow> string option \<Rightarrow> detection list" where
  "apply_rules rules filename file =
     (case file of
        None \<Rightarrow> []
      | Some content \<Rightarrow>
          fst (scan (custom_rule_step filename) []
                 (concat (map (\<lambda>l. map (\<lambda>rule. (l, rule)) rules) (numbered_lines content)))))"

definition apply_custom_rules :: "string \<Rightarrow> string option \<Rightarrow> detection list" where
  "apply_custom_rules filename file = apply_rules CUSTOM_RULES filename file"

subsection \<open>The pattern model\<close>

record vuln_type_info =
  vt_count :: int
  vt_severity :: "string option"

text \<open>
  The model file, as far as detection and training use it. Each entry of
  \<open>vulnerability_types\<close> also carries a frequency, a float that nothing reads.
\<close>

record pattern_model =
  vulnerability_types :: "(string \<times> vuln_type_info) list"
  code_patterns :: "(string \<times> string list) list"

text \<open>Lines 303 and 304 of the detector: the pattern made from one exemplar line.\<close>

definition core_pattern_of :: "python \<Rightarrow> string \<Rightarrow> py_error + string" where
  "core_pattern_of py pattern =
     (case re_sub py (bs # ''s+'') (bs # ''s+'') (re_escape py pattern) of
        Inl e \<Rightarrow> Inl e
      | Inr core_pattern \<Rightarrow>
          re_sub py ([bs, bs, bs] @ ''w+'' @ [bs, bs] @ ''s+'' @ [bs, bs, bs] @ ''w+'')
            (bs # ''w+'' @ bs # ''s+'' @ bs # ''w+'') core_pattern)"

definition model_step ::
  "python \<Rightarrow> pattern_model \<Rightarrow> string \<Rightarrow> string \<times> (int \<times> string) \<times> string
     \<Rightarrow> py_error + detection option" where
  "model_step py model_patterns contract_name x =
     (case x of (vuln_type, (line_num, line), pattern) \<Rightarrow>
        (case core_pattern_of py pattern of
           Inl e \<Rightarrow> Inl e
         | Inr core_pattern \<Rightarrow>
             (case re_search True core_pattern line of
                Inl e \<Rightarrow> Inl e
              | Inr False \<Rightarrow> Inr None
              | Inr True \<Rightarrow>
                  (let severity =
                         (case map_of (vulnerability_types model_patterns) vuln_type of
                            None \<Rightarrow> ''Medium''
                          | Some info \<Rightarrow>
                              (case vt_severity info of None \<Rightarrow> ''Medium'' | Some sv \<Rightarrow> sv))
                   in Inr (Some \<lparr>d_check = ''Model_'' @ vuln_type, d_impact = severity,
                                 d_confidence = ''Medium'',
                                 d_description = ''Potential '' @ vuln_type @
                                   '' vulnerability detected based on trained model patterns'',
                                 d_elements = [line_element line line_num contract_name]\<rparr>)))))"

text \<open>
  The model-based part of \<open>detect_external_loopholes\<close> for one contract file: the value of
  \<open>model_findings\<close> when the function combines the findings. \<open>model_patterns\<close> is \<open>None\<close>
  when there is no model file or it cannot be loaded.
\<close>

definition model_findings ::
  "python \<Rightarrow> pattern_model option \<Rightarrow> string \<Rightarrow> string option \<Rightarrow> detection list" where
  "model_findings py model_patterns contract_name file =
     (case model_patterns of
        None \<Rightarrow> []
      | Some m \<Rightarrow>
          (case file of
             None \<Rightarrow> []
           | Some content \<Rightarrow>
               fst (scan (model_step py m contract_name) []
                      (concat (map (\<lambda>(vuln_type, patterns).
                                 concat (map (\<lambda>l. map (\<lambda>pattern. (vuln_type, l, pattern)) patterns)
                                           (numbered_lines content)))
                               (code_patterns m))))))"

section \<open>Training the pattern model (scripts/train_model.py)\<close>

text \<open>
  A detection report as the training pass reads it from JSON: \<open>finding.get('check',
  'unknown')\<close>, \<open>finding.get('elements', [])\<close>, \<open>element.get('type')\<close> and
  \<open>element.get('name', '')\<close>, so a key that is absent is \<open>None\<close> here.
\<close>

record report_element =
  re_type :: "string option"
  re_name :: "string option"

record report_finding =
  rf_check :: "string option"
  rf_elements :: "report_element list"

record report =
  slither_findings :: "report_finding list"
  custom_findings :: "report_finding list"

record training_state =
  ts_code_patterns :: "(string \<times> string list) list"
  ts_vulnerability_counts :: "(string \<times> int) list"
  ts_contract_count :: int
  ts_vulnerable_contract_count :: int

definition training_init :: training_state where
  "training_init =
     \<lparr>ts_code_patterns = [], ts_vulnerability_counts = [], ts_contract_count = 0,
      ts_vulnerable_contract_count = 0\<rparr>"

text \<open>\<open>finding.get('check', 'unknown')\<close> and \<open>element.get('name', '').strip()\<close>.\<close>

definition check_of :: "report_finding \<Rightarrow> string" where
  "check_of finding = (case rf_check finding of None \<Rightarrow> ''unknown'' | Some c \<Rightarrow> c)"

definition code_line_of :: "report_element \<Rightarrow> string" where
  "code_line_of element = strip (case re_name element of None \<Rightarrow> [] | Some n \<Rightarrow> n)"

text \<open>The body of the loop over the elements of one finding.\<close>

definition learn_element ::
  "string \<Rightarrow> (string \<times> string list) list \<Rightarrow> report_element \<Rightarrow> (string \<times> string list) list" where
  "learn_element vuln_type cp element =
     (if re_type element = Some ''line'' then
        (let code_line = code_line_of element
         in if code_line \<noteq> [] \<and> 5 < length code_line then
              (let cp1 = (if vuln_type \<notin> fst ` set cp then cp @ [(vuln_type, [])] else cp)
               in if code_line \<notin> set (case map_of cp1 vuln_type of None \<Rightarrow> [] | Some l \<Rightarrow> l)
                  then dict_modify vuln_type (\<lambda>l. l @ [code_line]) cp1
                  else cp1)
            else cp)
      else cp)"

text \<open>The body of the loop over the findings of one list of a report.\<close>

definition learn_finding :: "training_state \<Rightarrow> report_finding \<Rightarrow> training_state" where
  "learn_finding st finding =
     (let vuln_type = check_of finding;
          counts0 = (if vuln_type \<notin> fst ` set (ts_vulnerability_counts st)
                     then ts_vulnerability_counts st @ [(vuln_type, 0)]
                     else ts_vulnerability_counts st);
          counts1 = dict_modify vuln_type (\<lambda>n. n + 1) counts0
      in st\<lparr>ts_vulnerability_counts := counts1,
            ts_code_patterns := foldl (learn_element vuln_type) (ts_code_patterns st)
                                  (rf_elements finding)\<rparr>)"

text \<open>
  One detection file: its path and the report loaded from it, \<open>None\<close> when reading or
  decoding it raises; the handler then prints the exception and goes on to the next file.
\<close>

definition learn_file :: "training_state \<Rightarrow> string \<times> report option \<Rightarrow> training_state" where
  "learn_file st file =
     (case file of (detection_path, loaded) \<Rightarrow>
        (case loaded of
           None \<Rightarrow> st
         | Some rep \<Rightarrow>
             (let is_vulnerable = contains ''vulnerable'' detection_path;
                  st1 = st\<lparr>ts_contract_count := ts_contract_count st + 1\<rparr>;
                  st2 = (if is_vulnerable
                         then st1\<lparr>ts_vulnerable_contract_count :=
                                    ts_vulnerable_contract_count st1 + 1\<rparr>
                         else st1);
                  st3 = foldl learn_finding st2 (slither_findings rep)
              in foldl learn_finding st3 (custom_findings rep))))"

definition severity_map_train :: "(string \<times> string) list" where
  "severity_map_train =
     [(''reentrancy'', ''High''), (''reentrancy-eth'', ''High''),
      (''reentrancy-no-eth'', ''Medium''), (''unchecked-transfer'', ''High''),
      (''unchecked-lowlevel'', ''High''), (''unchecked-send'', ''Medium''),
      (''tx-origin'', ''High''), (''TX_Origin_Usage'', ''High''), (''timestamp'', ''Medium''),
      (''Timestamp_Dependency'', ''Medium''),
      (''Integer_Overflow_Underflow_Candidate_Basic'', ''Medium''),
      (''uninitialized-local'', ''Medium''), (''uninitialized-storage'', ''High''),
      (''unused-return'', ''Medium''), (''incorrect-equality'', ''Medium''),
      (''shadowing-state'', ''Medium''), (''suicidal'', ''High''), (''arbitrary-send'', ''High''),
      (''locked-ether'', ''Medium''), (''Low_Level_Call'', ''Medium'')]"

definition get_severity_for_vulnerability :: "string \<Rightarrow> string" where
  "get_severity_for_vulnerability vuln_type =
     (case map_of severity_map_train (lower vuln_type) of
        None \<Rightarrow> ''Medium''
      | Some sv \<Rightarrow> sv)"

record model_metadata =
  md_version :: string
  md_creation_date :: string
  md_total_contracts_analyzed :: int
  md_vulnerable_contracts_analyzed :: int

record trained_model =
  tm_metadata :: model_metadata
  tm_patterns :: pattern_model

text \<open>
  \<open>extract_vulnerability_patterns\<close>, on the detection files found (\<open>now\<close> is the formatted
  current time). It returns nothing when there is no detection file.
\<close>

definition extract_vulnerability_patterns ::
  "string \<Rightarrow> (string \<times> report option) list \<Rightarrow> trained_model option" where
  "extract_vulnerability_patterns now detection_files =
     (if detection_files = [] then None
      else
        (let st = foldl learn_file training_init detection_files
         in Some \<lparr>tm_metadata =
                    \<lparr>md_version = ''1.0'', md_creation_date = now,
                     md_total_contracts_analyzed = ts_contract_count st,
                     md_vulnerable_contracts_analyzed = ts_vulnerable_contract_count st\<rparr>,
                  tm_patterns =
                    \<lparr>vulnerability_types =
                       map (\<lambda>(vuln_type, n).
                              (vuln_type,
                               \<lparr>vt_count = n,
                                vt_severity = Some (get_severity_for_vulnerability vuln_type)\<rparr>))
                           (ts_vulnerability_counts st),
                     code_patterns = ts_code_patterns st\<rparr>\<rparr>))"

text \<open>All findings of the reports that could be loaded, in the order the pass reads them.\<close>

definition findings_of :: "(string \<times> report option) list \<Rightarrow> report_finding list" where
  "findings_of detection_files =
     concat (map (\<lambda>(path, loaded).
                    case loaded of None \<Rightarrow> []
                    | Some rep \<Rightarrow> slither_findings rep @ custom_findings rep)
                 detection_files)"

section \<open>The tool adapters (imp_tools_integration.py)\<close>

subsection \<open>Severity of an Oyente issue\<close>

definition severity_map_oyente :: "(string \<times> string) list" where
  "severity_map_oyente =
     [(''reentrancy'', ''High''), (''timestamp_dependency'', ''Medium''),
      (''assertion_failure'', ''High''), (''integer_overflow'', ''High''),
      (''integer_underflow'', ''Medium''), (''money_concurrency'', ''High''),
      (''transaction_ordering_dependence'', ''Medium''), (''parity_multisig_bug'', ''Critical'')]"

definition get_severity_for_issue :: "string \<Rightarrow> string" where
  "get_severity_for_issue issue_type =
     (case map_of severity_map_oyente (lower issue_type) of
        None \<Rightarrow> ''Medium''
      | Some sv \<Rightarrow> sv)"

subsection \<open>The Mythril adapter\<close>

text \<open>
  An exception that leaves \<open>parse_results\<close>, with its message \<open>str(e)\<close>: \<open>json.loads\<close> raises
  \<open>RecursionError\<close> on a deeply nested text and \<open>ValueError\<close> on an integer literal that is
  too long, and \<open>int\<close> raises \<open>ValueError\<close> likewise. Neither is a \<open>JSONDecodeError\<close>.
\<close>

datatype raised = ValueError string | RecursionError string

fun str_of :: "raised \<Rightarrow> string" where
  "str_of (ValueError msg) = msg"
| "str_of (RecursionError msg) = msg"

text \<open>
  What \<open>json.loads\<close> makes of the tool's output: it raises \<open>JSONDecodeError\<close>, it raises
  another exception, or it returns a document. The model is typed: it covers the documents
  that have the shape of a Mythril report, an object whose \<open>issues\<close>, if present, is a list
  of objects with string fields and a \<open>sourceMap\<close> list. A field that is absent is \<open>None\<close>.
\<close>

record source_entry =
  se_line :: "int option"
  se_source :: "string option"

record mythril_issue =
  mi_title :: "string option"
  mi_description :: "string option"
  mi_severity :: "string option"
  mi_swc_id :: "string option"
  mi_confidence :: "string option"
  mi_sourceMap :: "source_entry list"

datatype json_outcome = JSONDecodeError | Raises raised | Loaded "mythril_issue list option"

record parsed_issue =
  pi_title :: string
  pi_description :: string
  pi_severity :: string
  pi_line_numbers :: "int list"
  pi_code_snippet :: "string option"
  pi_swc_id :: "string option"
  pi_confidence :: "string option"

text \<open>The result dictionary of an adapter; a key that is not set is \<open>None\<close>.\<close>

record tool_result =
  tr_tool :: "string option"
  tr_issues :: "parsed_issue list option"
  tr_raw_output :: "string option"
  tr_error_parsing :: "string option"
  tr_error :: "string option"
  tr_success :: "bool option"

definition no_result :: tool_result where
  "no_result =
     \<lparr>tr_tool = None, tr_issues = None, tr_raw_output = None, tr_error_parsing = None,
      tr_error = None, tr_success = None\<rparr>"

definition get_or :: "'a \<Rightarrow> 'a option \<Rightarrow> 'a" where
  "get_or d x = (case x of None \<Rightarrow> d | Some v \<Rightarrow> v)"

text \<open>
  The structured path for one issue. \<open>capitalize\<close> stands for \<open>str.capitalize\<close>, a parameter
  because its result can leave the code points below 256.
\<close>

definition parse_issue :: "(string \<Rightarrow> string) \<Rightarrow> mythril_issue \<Rightarrow> parsed_issue" where
  "parse_issue capitalize issue =
     \<lparr>pi_title = get_or ''Unknown Issue'' (mi_title issue),
      pi_description = get_or [] (mi_description issue),
      pi_severity = capitalize (get_or ''Unknown'' (mi_severity issue)),
      pi_line_numbers = concat (map (\<lambda>src. case se_line src of None \<Rightarrow> [] | Some l \<Rightarrow> [l])
                                  (mi_sourceMap issue)),
      pi_code_snippet = Some (concat (map (\<lambda>src. case se_source src of None \<Rightarrow> []
                                                | Some t \<Rightarrow> t @ [CHR 0x0A])
                                        (mi_sourceMap issue))),
      pi_swc_id = Some (get_or [] (mi_swc_id issue)),
      pi_confidence = Some (get_or ''Unknown'' (mi_confidence issue))\<rparr>"

text \<open>The decimal numeral of a number, as \<open>%d\<close> prints it in a message.\<close>

function show_nat :: "nat \<Rightarrow> string" where
  "show_nat n =
     (if n < 10 then [''0123456789'' ! n]
      else show_nat (n div 10) @ [''0123456789'' ! (n mod 10)])"
  by pat_completeness auto
termination
  by (relation "measure id") auto

text \<open>
  \<open>int(s)\<close> for a run \<open>s\<close> of decimal digits, as the group \<open>(\d+)\<close> matches one (digits below
  code point 256 are the ASCII digits). \<open>int_max_str_digits\<close> is the interpreter's limit
  \<open>sys.get_int_max_str_digits()\<close>, 4300 unless it is configured, and 0 where there is no
  limit; it is not applied to strings of up to 640 digits, and leading zeros count.
\<close>

definition py_int :: "nat \<Rightarrow> string \<Rightarrow> raised + int" where
  "py_int int_max_str_digits s =
     (if 640 < length s \<and> 0 < int_max_str_digits \<and> int_max_str_digits < length s then
        Inl (ValueError
               (''Exceeds the limit ('' @ show_nat int_max_str_digits @
                '' digits) for integer string conversion: value has '' @
                show_nat (length s) @
                '' digits; use sys.set_int_max_str_digits() to increase the limit''))
      else Inr (foldl (\<lambda>a c. 10 * a + (int (of_char c) - 48)) 0 s))"

text \<open>
  The textual fallback for one block that the pattern \<open>=== (\w+) ===\n([\s\S]+?)(?=\n===|\Z)\<close>
  finds: its title, its content, and the digits that \<open>line (\d+)\<close> finds first in the
  content, if any. The conversion of the digits can raise. A line number 0 is dropped, as
  \<open>[line_number] if line_number else []\<close> does.
\<close>

definition fallback_issue :: "nat \<Rightarrow> string \<times> string \<times> string option \<Rightarrow> raised + parsed_issue" where
  "fallback_issue int_max_str_digits m =
     (case m of (issue_type, content, line_digits) \<Rightarrow>
        (case (case line_digits of
                 None \<Rightarrow> Inr None
               | Some ds \<Rightarrow> map_sum id Some (py_int int_max_str_digits ds)) of
           Inl e \<Rightarrow> Inl e
         | Inr line_number \<Rightarrow>
             Inr \<lparr>pi_title = issue_type,
                  pi_description = take 200 (strip content),
                  pi_severity = ''Unknown'',
                  pi_line_numbers = (case line_number of
                                       None \<Rightarrow> []
                                     | Some n \<Rightarrow> if n = 0 then [] else [n]),
                  pi_code_snippet = None, pi_swc_id = None, pi_confidence = None\<rparr>))"

text \<open>The loop over the blocks: the first conversion that raises ends it.\<close>

fun fallback_issues ::
  "nat \<Rightarrow> (string \<times> string \<times> string option) list \<Rightarrow> raised + parsed_issue list" where
  "fallback_issues int_max_str_digits [] = Inr []"
| "fallback_issues int_max_str_digits (m # ms) =
     (case fallback_issue int_max_str_digits m of
        Inl e \<Rightarrow> Inl e
      | Inr issue \<Rightarrow> map_sum id ((#) issue) (fallback_issues int_max_str_digits ms))"

text \<open>
  \<open>MythrilAnalyzer.parse_results(raw_output)\<close>, which returns a result or raises. \<open>loaded\<close>
  is what \<open>json.loads(raw_output)\<close> does and \<open>matches\<close> what the fallback patterns find in
  \<open>raw_output\<close>; both are calls into the library on the same string, and the function reads
  the second only after the first has raised \<open>JSONDecodeError\<close>. The handler of the function
  catches \<open>JSONDecodeError\<close> alone, and the fallback runs inside that handler, so any other
  exception of \<open>json.loads\<close> and any exception of the fallback leave the function.
\<close>

definition parse_results ::
  "nat \<Rightarrow> (string \<Rightarrow> string) \<Rightarrow> string \<Rightarrow> json_outcome
     \<Rightarrow> (string \<times> string \<times> string option) list \<Rightarrow> raised + tool_result" where
  "parse_results int_max_str_digits capitalize raw_output loaded matches =
     (if strip raw_output \<noteq> [] then
        (case loaded of
           Loaded doc \<Rightarrow>
             (let issues = map (parse_issue capitalize) (get_or [] doc)
              in Inr (no_result\<lparr>tr_tool := Some ''Mythril'', tr_issues := Some issues,
                                tr_raw_output := (if issues = []
                                                  then Some (take 1000 raw_output)
                                                  else None)\<rparr>))
         | Raises e \<Rightarrow> Inl e
         | JSONDecodeError \<Rightarrow>
             (case fallback_issues int_max_str_digits matches of
                Inl e \<Rightarrow> Inl e
              | Inr issues \<Rightarrow>
                  Inr (no_result\<lparr>tr_tool := Some ''Mythril'', tr_issues := Some issues,
                                  tr_raw_output := Some (take 1000 raw_output),
                                  tr_error_parsing :=
                                    Some ''Could not parse Mythril JSON output''\<rparr>)))
      else Inr (no_result\<lparr>tr_tool := Some ''Mythril'', tr_issues := Some []\<rparr>))"

text \<open>What \<open>subprocess.run\<close> does: it times out, raises something else, or completes.\<close>

datatype run_outcome = TimeoutExpired | Raised string | Completed int string string

text \<open>
  \<open>MythrilAnalyzer.analyze(contract_path)\<close>; \<open>file_exists\<close> is \<open>os.path.exists(contract_path)\<close>,
  and \<open>Completed returncode stdout stderr\<close> a finished process. \<open>parse_results\<close> is called
  inside the \<open>try\<close> block, so \<open>except Exception\<close> turns an exception of it into an error
  result.
\<close>

definition analyze ::
  "nat \<Rightarrow> (string \<Rightarrow> string) \<Rightarrow> string \<Rightarrow> bool \<Rightarrow> run_outcome \<Rightarrow> json_outcome
     \<Rightarrow> (string \<times> string \<times> string option) list \<Rightarrow> tool_result" where
  "analyze int_max_str_digits capitalize contract_path file_exists run loaded matches =
     (if \<not> file_exists then no_result\<lparr>tr_error := Some (''File not found: '' @ contract_path)\<rparr>
      else
        (case run of
           TimeoutExpired \<Rightarrow>
             no_result\<lparr>tr_error := Some ''Mythril analysis timed out after 300 seconds'',
                        tr_tool := Some ''Mythril'', tr_success := Some False\<rparr>
         | Raised msg \<Rightarrow>
             no_result\<lparr>tr_error := Some (''Error running Mythril: '' @ msg),
                        tr_tool := Some ''Mythril'', tr_success := Some False\<rparr>
         | Completed returncode stdout stderr \<Rightarrow>
             if returncode \<noteq> 0 \<and> stdout = [] then
               no_result\<lparr>tr_error := Some (''Mythril analysis failed: '' @ stderr),
                          tr_tool := Some ''Mythril'', tr_success := Some False\<rparr>
             else
               (case parse_results int_max_str_digits capitalize stdout loaded matches of
                  Inl e \<Rightarrow>
                    no_result\<lparr>tr_error := Some (''Error running Mythril: '' @ str_of e),
                               tr_tool := Some ''Mythril'', tr_success := Some False\<rparr>
                | Inr results \<Rightarrow> results\<lparr>tr_success := Some True\<rparr>)))"

section \<open>Auxiliary notions for the proofs\<close>

text \<open>
  The three updates that \<open>add_vulnerability\<close> makes to the entry of a category, as one
  function, and the insertion of a fresh entry before them.
\<close>

definition bump_stats :: "RiskLevel \<Rightarrow> category_stats \<Rightarrow> category_stats" where
  "bump_stats l st =
     \<lparr>cs_count = cs_count st + 1,
      cs_max_level = (if risk_value l > risk_value (cs_max_level st) then l else cs_max_level st),
      cs_score = cs_score st + get_risk_weight l\<rparr>"

definition open_category ::
  "string \<Rightarrow> (string \<times> category_stats) list \<Rightarrow> (string \<times> category_stats) list" where
  "open_category c d =
     (if c \<notin> fst ` set d then d @ [(c, \<lparr>cs_count = 0, cs_max_level = NONE, cs_score = 0\<rparr>)]
      else d)"

definition count_in :: "string \<Rightarrow> vulnerability list \<Rightarrow> int" where
  "count_in c vs = int (length (filter (\<lambda>v. v_category v = c) vs))"

text \<open>The bookkeeping that every reachable risk score satisfies.\<close>

definition accounted :: "RiskScore \<Rightarrow> bool" where
  "accounted rs \<longleftrightarrow>
     distinct (map fst (risk_categories rs)) \<and>
     total_score rs =
       sum_list (map (\<lambda>v. get_risk_weight (v_risk_level v)) (vulnerabilities rs)) \<and>
     total_score rs = sum_list (map (\<lambda>(c, st). cs_score st) (risk_categories rs)) \<and>
     (\<forall>c st. map_of (risk_categories rs) c = Some st \<longrightarrow>
        cs_count st = count_in c (vulnerabilities rs)) \<and>
     fst ` set (risk_categories rs) = v_category ` set (vulnerabilities rs) \<and>
     risk_value (max_risk_level rs) =
       Max (insert 0 (risk_value ` v_risk_level ` set (vulnerabilities rs)))"

text \<open>A finding of a given level and category, for the examples.\<close>

definition finding_of :: "RiskLevel \<Rightarrow> string \<Rightarrow> finding" where
  "finding_of l c =
     \<lparr>f_name = ''finding'', f_description = ''example'', f_risk_level = l, f_category = c,
      f_location = None, f_remediation = None\<rparr>"

text \<open>
  The exemplar list of a check type in the model under construction, the elements that the
  training pass learns from, and the shape of the exemplar table.
\<close>

definition lines_for :: "(string \<times> string list) list \<Rightarrow> string \<Rightarrow> string list" where
  "lines_for cp t = (case map_of cp t of None \<Rightarrow> [] | Some l \<Rightarrow> l)"

definition learnable :: "report_element \<Rightarrow> bool" where
  "learnable e \<longleftrightarrow> re_type e = Some ''line'' \<and> 5 < length (code_line_of e)"

definition tidy :: "(string \<times> string list) list \<Rightarrow> bool" where
  "tidy cp \<longleftrightarrow> distinct (map fst cp) \<and> (\<forall>(t, ls) \<in> set cp. distinct ls)"

definition open_key :: "string \<Rightarrow> (string \<times> string list) list \<Rightarrow> (string \<times> string list) list" where
  "open_key t cp = (if t \<notin> fst ` set cp then cp @ [(t, [])] else cp)"

definition offered :: "report_finding list \<Rightarrow> string \<Rightarrow> string set" where
  "offered fs t =
     {code_line_of e | e f.
        f \<in> set fs \<and> check_of f = t \<and> e \<in> set (rf_elements f) \<and> learnable e}"

text \<open>The inputs of the examples.\<close>

definition reentrancy_model :: pattern_model where
  "reentrancy_model =
     \<lparr>vulnerability_types = [(''reentrancy'', \<lparr>vt_count = 1, vt_severity = Some ''High''\<rparr>)],
      code_patterns = [(''reentrancy'', [''x.call.value(amount)()''])]\<rparr>"

definition line_finding :: "string \<Rightarrow> string \<Rightarrow> report_finding" where
  "line_finding c n =
     \<lparr>rf_check = Some c, rf_elements = [\<lparr>re_type = Some ''line'', re_name = Some n\<rparr>]\<rparr>"

definition example_reports :: "(string \<times> report option) list" where
  "example_reports =
     [(''Detection_Results/a_detection_report.json'',
       Some \<lparr>slither_findings = [line_finding ''reentrancy'' ''  msg.sender.call.value(x)();''],
             custom_findings = [line_finding ''Low_Level_Call'' ''msg.sender.call.value(x)();'',
                                line_finding ''reentrancy'' ''msg.sender.call.value(x)();'']\<rparr>)]"

definition short_line_reports :: "(string \<times> report option) list" where
  "short_line_reports =
     [(''Detection_Results/b_detection_report.json'',
       Some \<lparr>slither_findings = [],
             custom_findings =
               [line_finding ''Integer_Overflow_Underflow_Candidate_Basic'' ''x++;'']\<rparr>)]"

text \<open>
  The pattern that the detector makes of the exemplar \<open>x.call.value(amount)()\<close> when the
  substitutions run, and the finding that the model of the examples gives for a line.
\<close>

definition escaped_exemplar :: string where
  "escaped_exemplar =
     ''x'' @ bs # ''.call'' @ bs # ''.value'' @ bs # ''(amount'' @ bs # '')'' @ bs # ''(''
     @ bs # '')''"

definition exemplar_finding :: "string \<Rightarrow> detection" where
  "exemplar_finding line =
     \<lparr>d_check = ''Model_reentrancy'', d_impact = ''High'', d_confidence = ''Medium'',
      d_description =
        ''Potential reentrancy vulnerability detected based on trained model patterns'',
      d_elements =
        [\<lparr>e_type = ''line'', e_name = line,
          e_source_mapping = \<lparr>sm_start = - 1, sm_length = - 1, sm_lines = [1],
                              sm_filename_relative = ''C.sol''\<rparr>\<rparr>]\<rparr>"

text \<open>
  Two outputs that are no JSON text: a block of the textual report whose line number has
  4301 digits, with what the fallback patterns find in it, and 100000 opening brackets.
  And the result dictionary of \<open>analyze\<close> after a failure.
\<close>

definition long_digits :: string where
  "long_digits = replicate 4301 CHR ''1''"

definition long_line_output :: string where
  "long_line_output = ''=== A ==='' @ CHR 0x0A # ''see line '' @ long_digits"

definition long_line_matches :: "(string \<times> string \<times> string option) list" where
  "long_line_matches = [(''A'', ''see line '' @ long_digits, Some long_digits)]"

definition deep_output :: string where
  "deep_output = replicate 100000 CHR ''[''"

definition error_result :: "string \<Rightarrow> tool_result" where
  "error_result msg =
     \<lparr>tr_tool = Some ''Mythril'', tr_issues = None, tr_raw_output = None,
      tr_error_parsing = None, tr_error = Some msg, tr_success = Some False\<rparr>"

section \<open>Lemmas about dictionaries\<close>

lemma dict_modify_keys: "map fst (dict_modify k f d) = map fst d"
  by (induction d) auto

lemma dict_modify_comp:
  "dict_modify k f (dict_modify k g d) = dict_modify k (\<lambda>v. f (g v)) d"
  by (induction d) auto

lemma dict_modify_cong: "(\<And>v. f v = g v) \<Longrightarrow> dict_modify k f d = dict_modify k g d"
  by (induction d) auto

lemma map_of_dict_modify:
  "map_of (dict_modify k f d) k' = (if k' = k then map_option f (map_of d k) else map_of d k')"
  by (induction d) auto

lemma dict_modify_values:
  "(k', v') \<in> set (dict_modify k f d) \<Longrightarrow>
     (k', v') \<in> set d \<or> (k' = k \<and> (\<exists>v. (k, v) \<in> set d \<and> v' = f v))"
  by (induction d) (auto split: if_splits)

lemma sum_dict_modify:
  "k \<in> fst ` set d \<Longrightarrow> (\<And>v. g (f v) = g v + w) \<Longrightarrow>
     sum_list (map (\<lambda>(k, v). g v) (dict_modify k f d)) =
       sum_list (map (\<lambda>(k, v). g v) d) + (w::int)"
  by (induction d) force+

lemma map_of_snoc_new:
  "k \<notin> fst ` set d \<Longrightarrow> map_of (d @ [(k, v)]) k' = (if k' = k then Some v else map_of d k')"
  using map_of_eq_None_iff [of d k] by (auto simp: map_add_def split: option.splits)

section \<open>The risk score\<close>

lemma vulnerabilities_add:
  "vulnerabilities (add_vulnerability rs n d l c loc r) =
     vulnerabilities rs @
       [\<lparr>v_name = n, v_description = d, v_risk_level = l, v_risk_level_str = to_string l,
         v_category = c, v_location = loc, v_remediation = r\<rparr>]"
  by (simp add: add_vulnerability_def Let_def)

lemma total_score_add:
  "total_score (add_vulnerability rs n d l c loc r) = total_score rs + get_risk_weight l"
  by (simp add: add_vulnerability_def Let_def)

lemma max_risk_level_add:
  "risk_value (max_risk_level (add_vulnerability rs n d l c loc r)) =
     max (risk_value (max_risk_level rs)) (risk_value l)"
  by (simp add: add_vulnerability_def Let_def)

lemma risk_categories_add:
  "risk_categories (add_vulnerability rs n d l c loc r) =
     dict_modify c (bump_stats l) (open_category c (risk_categories rs))"
proof -
  let ?f1 = "\<lambda>st. st\<lparr>cs_count := cs_count st + 1\<rparr>"
  let ?f2 = "\<lambda>st. if risk_value l > risk_value (cs_max_level st)
                  then st\<lparr>cs_max_level := l\<rparr> else st"
  let ?f3 = "\<lambda>st. st\<lparr>cs_score := cs_score st + get_risk_weight l\<rparr>"
  let ?d = "open_category c (risk_categories rs)"
  have "risk_categories (add_vulnerability rs n d l c loc r) =
          dict_modify c ?f3 (dict_modify c ?f2 (dict_modify c ?f1 ?d))"
    by (simp add: add_vulnerability_def Let_def open_category_def)
  also have "\<dots> = dict_modify c (\<lambda>st. ?f3 (?f2 (?f1 st))) ?d"
    by (simp only: dict_modify_comp)
  also have "\<dots> = dict_modify c (bump_stats l) ?d"
    by (rule dict_modify_cong) (simp add: bump_stats_def)
  finally show ?thesis .
qed

lemma get_risk_weight_nonneg: "0 \<le> get_risk_weight l"
  by (cases l) simp_all

lemma aggregate_Nil: "aggregate [] = RiskScore_init"
  by (simp add: aggregate_def)

lemma aggregate_snoc: "aggregate (fs @ [f]) = add_finding (aggregate fs) f"
  by (simp add: aggregate_def)

lemma level_counts_acc:
  "level_counts vs t l = t l + int (length (filter (\<lambda>v. v_risk_level v = l) vs))"
  by (induction vs arbitrary: t) auto

lemma bucket_summary:
  "bucket l (s_risk_distribution (get_summary rs)) =
     int (length (filter (\<lambda>v. v_risk_level v = l) (vulnerabilities rs)))"
  by (cases l) (simp_all add: get_summary_def Let_def level_counts_acc)

lemma total_summary: "s_total_score (get_summary rs) = total_score rs"
  by (simp add: get_summary_def Let_def)

lemma open_category_keys: "c \<in> fst ` set (open_category c d)"
  by (auto simp: open_category_def)

lemma open_category_distinct:
  "distinct (map fst d) \<Longrightarrow> distinct (map fst (open_category c d))"
  by (auto simp: open_category_def)

lemma open_category_sum:
  "sum_list (map (\<lambda>(k, v). cs_score v) (open_category c d)) =
     sum_list (map (\<lambda>(k, v). cs_score v) d)"
  by (simp add: open_category_def)

lemma map_of_open_category:
  "map_of (open_category c d) c' =
     (if c' = c \<and> c \<notin> fst ` set d
      then Some \<lparr>cs_count = 0, cs_max_level = NONE, cs_score = 0\<rparr>
      else map_of d c')"
  using map_of_eq_None_iff [of d c]
  by (auto simp: open_category_def map_add_def split: option.splits)

lemma accounted_init: "accounted RiskScore_init"
  by (simp add: accounted_def RiskScore_init_def)

lemma accounted_add:
  assumes "accounted rs"
  shows "accounted (add_vulnerability rs n d l c loc r)"
proof -
  let ?rs' = "add_vulnerability rs n d l c loc r"
  from assms have dist: "distinct (map fst (risk_categories rs))"
    and tot: "total_score rs =
                sum_list (map (\<lambda>v. get_risk_weight (v_risk_level v)) (vulnerabilities rs))"
    and cat: "total_score rs = sum_list (map (\<lambda>(c, st). cs_score st) (risk_categories rs))"
    and cnt: "\<forall>c st. map_of (risk_categories rs) c = Some st \<longrightarrow>
                cs_count st = count_in c (vulnerabilities rs)"
    and cov: "fst ` set (risk_categories rs) = v_category ` set (vulnerabilities rs)"
    and mx: "risk_value (max_risk_level rs) =
               Max (insert 0 (risk_value ` v_risk_level ` set (vulnerabilities rs)))"
    by (simp_all add: accounted_def)
  have 1: "distinct (map fst (risk_categories ?rs'))"
    by (simp add: risk_categories_add dict_modify_keys open_category_distinct dist)
  have 2: "total_score ?rs' =
             sum_list (map (\<lambda>v. get_risk_weight (v_risk_level v)) (vulnerabilities ?rs'))"
    by (simp add: total_score_add vulnerabilities_add tot)
  have "sum_list (map (\<lambda>(k, v). cs_score v)
          (dict_modify c (bump_stats l) (open_category c (risk_categories rs)))) =
        sum_list (map (\<lambda>(k, v). cs_score v) (open_category c (risk_categories rs))) +
          get_risk_weight l"
    by (rule sum_dict_modify) (simp_all add: open_category_keys bump_stats_def)
  then have 3: "total_score ?rs' = sum_list (map (\<lambda>(c, st). cs_score st) (risk_categories ?rs'))"
    by (simp add: total_score_add risk_categories_add open_category_sum cat)
  have nokey: "c \<notin> fst ` set (risk_categories rs) \<Longrightarrow> count_in c (vulnerabilities rs) = 0"
    using cov by (auto simp: count_in_def filter_empty_conv)
  have 4: "\<forall>c' st. map_of (risk_categories ?rs') c' = Some st \<longrightarrow>
             cs_count st = count_in c' (vulnerabilities ?rs')"
  proof (intro allI impI)
    fix c' st
    assume h: "map_of (risk_categories ?rs') c' = Some st"
    show "cs_count st = count_in c' (vulnerabilities ?rs')"
    proof (cases "c' = c")
      case same: True
      show ?thesis
      proof (cases "c \<in> fst ` set (risk_categories rs)")
        case True
        with h same obtain st0
          where "map_of (risk_categories rs) c = Some st0" "st = bump_stats l st0"
          by (auto simp: risk_categories_add map_of_dict_modify map_of_open_category)
        with cnt same show ?thesis
          by (simp add: vulnerabilities_add count_in_def bump_stats_def)
      next
        case False
        with h same
        have "st = bump_stats l \<lparr>cs_count = 0, cs_max_level = NONE, cs_score = 0\<rparr>"
          by (auto simp: risk_categories_add map_of_dict_modify map_of_open_category)
        with nokey [OF False] same show ?thesis
          by (simp add: vulnerabilities_add count_in_def bump_stats_def)
      qed
    next
      case False
      with h have "map_of (risk_categories rs) c' = Some st"
        by (auto simp: risk_categories_add map_of_dict_modify map_of_open_category)
      with cnt False show ?thesis
        by (simp add: vulnerabilities_add count_in_def)
    qed
  qed
  have keys: "fst ` set (risk_categories ?rs') = insert c (fst ` set (risk_categories rs))"
  proof -
    have "set (map fst (risk_categories ?rs')) =
            set (map fst (open_category c (risk_categories rs)))"
      by (simp only: risk_categories_add dict_modify_keys)
    then show ?thesis by (auto simp: open_category_def)
  qed
  have 5: "fst ` set (risk_categories ?rs') = v_category ` set (vulnerabilities ?rs')"
    using cov by (simp add: keys vulnerabilities_add)
  have 6: "risk_value (max_risk_level ?rs') =
             Max (insert 0 (risk_value ` v_risk_level ` set (vulnerabilities ?rs')))"
  proof -
    have "Max (insert (risk_value l)
                (insert 0 (risk_value ` v_risk_level ` set (vulnerabilities rs)))) =
          max (risk_value l)
            (Max (insert 0 (risk_value ` v_risk_level ` set (vulnerabilities rs))))"
      by (rule Max_insert) simp_all
    then show ?thesis
      by (simp add: max_risk_level_add vulnerabilities_add mx insert_commute max.commute)
  qed
  show ?thesis
    unfolding accounted_def using 1 2 3 4 5 6 by simp
qed

lemma accounted_aggregate: "accounted (aggregate fs)"
  by (induction fs rule: rev_induct)
     (simp_all add: aggregate_Nil accounted_init aggregate_snoc add_finding_def accounted_add)

lemma vulnerabilities_aggregate:
  "map v_risk_level (vulnerabilities (aggregate fs)) = map f_risk_level fs \<and>
   map v_category (vulnerabilities (aggregate fs)) = map f_category fs"
  by (induction fs rule: rev_induct)
     (simp_all add: aggregate_Nil RiskScore_init_def aggregate_snoc add_finding_def
        vulnerabilities_add)

text \<open>The risk scores of the examples, computed.\<close>

lemma aggregate_example:
  "aggregate [finding_of HIGH ''Security'', finding_of LOW ''Gas'', finding_of MEDIUM ''Security''] =
     \<lparr>vulnerabilities =
        [\<lparr>v_name = ''finding'', v_description = ''example'', v_risk_level = HIGH,
          v_risk_level_str = ''High'', v_category = ''Security'', v_location = None,
          v_remediation = None\<rparr>,
         \<lparr>v_name = ''finding'', v_description = ''example'', v_risk_level = LOW,
          v_risk_level_str = ''Low'', v_category = ''Gas'', v_location = None,
          v_remediation = None\<rparr>,
         \<lparr>v_name = ''finding'', v_description = ''example'', v_risk_level = MEDIUM,
          v_risk_level_str = ''Medium'', v_category = ''Security'', v_location = None,
          v_remediation = None\<rparr>],
      total_score = 11, max_risk_level = HIGH,
      risk_categories =
        [(''Security'', \<lparr>cs_count = 2, cs_max_level = HIGH, cs_score = 10\<rparr>),
         (''Gas'', \<lparr>cs_count = 1, cs_max_level = LOW, cs_score = 1\<rparr>)]\<rparr>"
  by (simp add: aggregate_def add_finding_def add_vulnerability_def finding_of_def
      RiskScore_init_def)

lemma total_score_examples:
  "total_score (aggregate []) = 0"
  "total_score (aggregate [finding_of LOW ''Security'', finding_of LOW ''Security'']) = 2"
  "total_score (aggregate [finding_of MEDIUM ''Security'']) = 3"
  "total_score (aggregate [finding_of HIGH ''Security'', finding_of LOW ''Gas'']) = 8"
  "total_score (aggregate [finding_of CRITICAL ''Security'', finding_of MEDIUM ''Gas'']) = 18"
  by (simp_all add: aggregate_def add_finding_def total_score_add finding_of_def
      RiskScore_init_def)

lemma lower_examples:
  "lower ''bogus'' = ''bogus''"
  "lower ''Bogus_Issue'' = ''bogus_issue''"
  "lower ''Reentrancy'' = ''reentrancy''"
  by code_simp+

lemma from_string_None: "from_string None = Inl AttributeError"
  by (simp add: from_string_def)

lemma lower_char_idem: "lower_char (lower_char c) = lower_char c"
proof -
  define n where "n = (of_char c :: nat)"
  define up where "up m \<longleftrightarrow> (65 \<le> m \<and> m \<le> 90) \<or> (192 \<le> m \<and> m \<le> 222 \<and> m \<noteq> 215)"
    for m :: nat
  have eq: "lower_char d = (if up (of_char d) then char_of (of_char d + 32 :: nat) else d)" for d
    unfolding lower_char_def up_def Let_def ..
  show ?thesis
  proof (cases "up n")
    case True
    then have l: "lower_char c = char_of (n + 32)"
      by (simp add: eq n_def)
    from True have "(of_char (char_of (n + 32) :: char) :: nat) = n + 32"
      by (auto simp: of_char_of up_def)
    with True have "\<not> up (of_char (char_of (n + 32) :: char))"
      by (auto simp: up_def)
    then show ?thesis
      unfolding l by (simp add: eq)
  next
    case False
    then have "lower_char c = c"
      by (simp add: eq n_def)
    then show ?thesis by simp
  qed
qed

lemma lower_idem: "lower (lower s) = lower s"
  by (simp add: lower_def lower_char_idem)

lemma lower_not_key: "lower t \<notin> set (map lower ks) \<Longrightarrow> lower t \<notin> set ks"
proof
  assume "lower t \<notin> set (map lower ks)" and "lower t \<in> set ks"
  then have "lower (lower t) \<in> set (map lower ks)" by simp
  with \<open>lower t \<notin> set (map lower ks)\<close> show False by (simp add: lower_idem)
qed

section \<open>The claims about the risk score\<close>

text \<open>
  C1, as the code has it. A severity string that is not in the vocabulary of
  \<open>RiskLevel.from_string\<close> (compared in lower case) becomes the level Low, whose weight is 1;
  the enum has no level Unknown. A vulnerability added with that level is appended to the
  list of vulnerabilities and raises the total score by 1.
\<close>

theorem from_string_unrecognized:
  "lower s \<notin> fst ` set level_map \<Longrightarrow>
     from_string (Some s) = Inr LOW \<and> get_risk_weight LOW = 1 \<and>
     vulnerabilities (add_vulnerability rs n d LOW c loc r) =
       vulnerabilities rs @
         [\<lparr>v_name = n, v_description = d, v_risk_level = LOW, v_risk_level_str = ''Low'',
           v_category = c, v_location = loc, v_remediation = r\<rparr>] \<and>
     total_score (add_vulnerability rs n d LOW c loc r) = total_score rs + 1"
  using map_of_eq_None_iff [of level_map "lower s"]
  by (simp add: from_string_def vulnerabilities_add total_score_add)

theorem from_string_unrecognized_witness:
  "lower ''bogus'' \<notin> fst ` set level_map \<and>
   from_string (Some ''bogus'') = Inr LOW \<and> get_risk_weight LOW = 1 \<and>
   total_score (add_vulnerability RiskScore_init ''n'' ''d'' LOW ''c'' None None) = 1"
  using from_string_unrecognized [of "''bogus''" RiskScore_init "''n''" "''d''" "''c''" None None]
  by (simp add: level_map_def lower_examples RiskScore_init_def)

text \<open>
  C1 as stated fails: the unrecognized string \<open>bogus\<close> is converted to Low, which is not
  rendered as Unknown and does not weigh 0.
\<close>

theorem from_string_unknown_counterexample:
  "lower ''bogus'' \<notin> fst ` set level_map \<and>
   from_string (Some ''bogus'') = Inr LOW \<and> to_string LOW \<noteq> ''Unknown'' \<and>
   get_risk_weight LOW \<noteq> 0"
  by (simp add: from_string_def level_map_def lower_examples)

text \<open>
  C4. The overall risk level follows the total score: 0 gives None, a score between 0 and 3
  gives Low, from 3 up to 8 Medium, from 8 up to 18 High, and from 18 on Critical.
\<close>

theorem overall_risk_level_thresholds:
  "(total_score rs = 0 \<longrightarrow> get_overall_risk_level rs = NONE) \<and>
   (0 < total_score rs \<and> total_score rs < 3 \<longrightarrow> get_overall_risk_level rs = LOW) \<and>
   (3 \<le> total_score rs \<and> total_score rs < 8 \<longrightarrow> get_overall_risk_level rs = MEDIUM) \<and>
   (8 \<le> total_score rs \<and> total_score rs < 18 \<longrightarrow> get_overall_risk_level rs = HIGH) \<and>
   (18 \<le> total_score rs \<longrightarrow> get_overall_risk_level rs = CRITICAL)"
  by (simp add: get_overall_risk_level_def)

theorem overall_risk_level_thresholds_witness:
  "get_overall_risk_level (aggregate []) = NONE \<and>
   get_overall_risk_level
     (aggregate [finding_of LOW ''Security'', finding_of LOW ''Security'']) = LOW \<and>
   get_overall_risk_level (aggregate [finding_of MEDIUM ''Security'']) = MEDIUM \<and>
   get_overall_risk_level
     (aggregate [finding_of HIGH ''Security'', finding_of LOW ''Gas'']) = HIGH \<and>
   get_overall_risk_level
     (aggregate [finding_of CRITICAL ''Security'', finding_of MEDIUM ''Gas'']) = CRITICAL"
  using overall_risk_level_thresholds [of "aggregate []"]
    overall_risk_level_thresholds
      [of "aggregate [finding_of LOW ''Security'', finding_of LOW ''Security'']"]
    overall_risk_level_thresholds [of "aggregate [finding_of MEDIUM ''Security'']"]
    overall_risk_level_thresholds
      [of "aggregate [finding_of HIGH ''Security'', finding_of LOW ''Gas'']"]
    overall_risk_level_thresholds
      [of "aggregate [finding_of CRITICAL ''Security'', finding_of MEDIUM ''Gas'']"]
  by (simp add: total_score_examples)

text \<open>
  C7. Adding a finding \<open>f\<close> to a list \<open>L\<close> of findings does not lower the total score of the
  report and lowers no bucket of its severity histogram; the bucket of the level of \<open>f\<close>
  grows by one.
\<close>

theorem aggregation_monotone:
  "s_total_score (get_summary (aggregate L))
     \<le> s_total_score (get_summary (aggregate (L @ [f]))) \<and>
   (\<forall>l. bucket l (s_risk_distribution (get_summary (aggregate L)))
          \<le> bucket l (s_risk_distribution (get_summary (aggregate (L @ [f]))))) \<and>
   bucket (f_risk_level f) (s_risk_distribution (get_summary (aggregate (L @ [f])))) =
     bucket (f_risk_level f) (s_risk_distribution (get_summary (aggregate L))) + 1"
  by (simp add: total_summary bucket_summary aggregate_snoc add_finding_def total_score_add
      vulnerabilities_add get_risk_weight_nonneg)

text \<open>
  C9. After any sequence of calls of \<open>add_vulnerability\<close> on a fresh risk score, one
  vulnerability is recorded per call, with the level and category of the call; the total
  score is the sum of the weights of the recorded vulnerabilities and the sum of the scores
  of the categories; the categories are those of the recorded vulnerabilities, each once,
  and the count of each is the number of recorded vulnerabilities in it; and the maximal
  risk level is the greatest recorded level, None when nothing is recorded.
\<close>

theorem accounting_invariant:
  "map v_risk_level (vulnerabilities (aggregate fs)) = map f_risk_level fs \<and>
   map v_category (vulnerabilities (aggregate fs)) = map f_category fs \<and>
   total_score (aggregate fs) =
     sum_list (map (\<lambda>v. get_risk_weight (v_risk_level v)) (vulnerabilities (aggregate fs))) \<and>
   total_score (aggregate fs) =
     sum_list (map (\<lambda>(c, st). cs_score st) (risk_categories (aggregate fs))) \<and>
   distinct (map fst (risk_categories (aggregate fs))) \<and>
   fst ` set (risk_categories (aggregate fs)) = v_category ` set (vulnerabilities (aggregate fs)) \<and>
   (\<forall>(c, st) \<in> set (risk_categories (aggregate fs)).
      cs_count st =
        int (length (filter (\<lambda>v. v_category v = c) (vulnerabilities (aggregate fs))))) \<and>
   risk_value (max_risk_level (aggregate fs)) =
     Max (insert 0 (risk_value ` v_risk_level ` set (vulnerabilities (aggregate fs)))) \<and>
   max_risk_level (aggregate []) = NONE"
proof -
  have acc: "accounted (aggregate fs)"
    by (rule accounted_aggregate)
  then have "cs_count st = int (length (filter (\<lambda>v. v_category v = c)
                                        (vulnerabilities (aggregate fs))))"
    if "(c, st) \<in> set (risk_categories (aggregate fs))" for c st
    using that by (simp add: accounted_def count_in_def)
  moreover have "max_risk_level (aggregate []) = NONE"
    by (simp add: aggregate_Nil RiskScore_init_def)
  ultimately show ?thesis
    using acc vulnerabilities_aggregate [of fs] unfolding accounted_def by blast
qed

theorem accounting_invariant_witness:
  "total_score
     (aggregate [finding_of HIGH ''Security'', finding_of LOW ''Gas'',
                 finding_of MEDIUM ''Security'']) = 7 + 1 + 3 \<and>
   risk_categories
     (aggregate [finding_of HIGH ''Security'', finding_of LOW ''Gas'',
                 finding_of MEDIUM ''Security'']) =
     [(''Security'', \<lparr>cs_count = 2, cs_max_level = HIGH, cs_score = 10\<rparr>),
      (''Gas'', \<lparr>cs_count = 1, cs_max_level = LOW, cs_score = 1\<rparr>)] \<and>
   map v_category
     (vulnerabilities
        (aggregate [finding_of HIGH ''Security'', finding_of LOW ''Gas'',
                    finding_of MEDIUM ''Security''])) = [''Security'', ''Gas'', ''Security''] \<and>
   max_risk_level
     (aggregate [finding_of HIGH ''Security'', finding_of LOW ''Gas'',
                 finding_of MEDIUM ''Security'']) = HIGH"
  using accounting_invariant
    [of "[finding_of HIGH ''Security'', finding_of LOW ''Gas'', finding_of MEDIUM ''Security'']"]
  by (simp add: aggregate_example)

text \<open>
  C10. On the empty text a fresh legal scorer, and on the empty code a fresh smart-contract
  scorer, records exactly one vulnerability, of level Critical in the category
  Completeness, whatever the other checks would do; the total score is then 15 and the
  overall risk level High. On a scorer that has recorded vulnerabilities before, the empty
  input adds exactly one.
\<close>

theorem empty_input_single_critical:
  "analyze_contract chk1 chk2 chk3 RiskScore_init [] =
     \<lparr>vulnerabilities =
        [\<lparr>v_name = ''Empty contract'',
          v_description = ''The contract text is empty or could not be extracted'',
          v_risk_level = CRITICAL, v_risk_level_str = ''Critical'',
          v_category = ''Completeness'', v_location = None,
          v_remediation =
            Some ''Provide a valid contract document with proper text content.''\<rparr>],
      total_score = 15, max_risk_level = CRITICAL,
      risk_categories =
        [(''Completeness'', \<lparr>cs_count = 1, cs_max_level = CRITICAL, cs_score = 15\<rparr>)]\<rparr> \<and>
   get_overall_risk_level (analyze_contract chk1 chk2 chk3 RiskScore_init []) = HIGH \<and>
   analyze_contract_code chk4 chk5 chk6 RiskScore_init [] =
     \<lparr>vulnerabilities =
        [\<lparr>v_name = ''Empty contract code'', v_description = ''The contract code is empty'',
          v_risk_level = CRITICAL, v_risk_level_str = ''Critical'',
          v_category = ''Completeness'', v_location = None,
          v_remediation = Some ''Provide valid contract code.''\<rparr>],
      total_score = 15, max_risk_level = CRITICAL,
      risk_categories =
        [(''Completeness'', \<lparr>cs_count = 1, cs_max_level = CRITICAL, cs_score = 15\<rparr>)]\<rparr> \<and>
   get_overall_risk_level (analyze_contract_code chk4 chk5 chk6 RiskScore_init []) = HIGH \<and>
   length (vulnerabilities (analyze_contract chk1 chk2 chk3 rs [])) =
     Suc (length (vulnerabilities rs)) \<and>
   length (vulnerabilities (analyze_contract_code chk4 chk5 chk6 rs [])) =
     Suc (length (vulnerabilities rs))"
  by (simp add: analyze_contract_def analyze_contract_code_def add_vulnerability_def
      RiskScore_init_def get_overall_risk_level_def)

section \<open>The claims about the detectors\<close>

text \<open>
  C6. With the rule table of the script, a file that holds the one line
  \<open>require(tx.origin == owner);\<close>, with or without a line end, gives exactly one finding: its
  check is \<open>TX_Origin_Usage\<close>, its impact \<open>High\<close>, its description is marked as a custom rule
  match, and its one element is that line at line number 1.
\<close>

theorem custom_rule_scenario:
  "apply_custom_rules ''C.sol'' (Some ''require(tx.origin == owner);'') =
     [\<lparr>d_check = ''TX_Origin_Usage'', d_impact = ''High'', d_confidence = ''Medium'',
       d_description =
         ''Use of tx.origin for authentication, vulnerable to phishing. (Custom Rule Match)'',
       d_elements =
         [\<lparr>e_type = ''line'', e_name = ''require(tx.origin == owner);'',
           e_source_mapping = \<lparr>sm_start = - 1, sm_length = - 1, sm_lines = [1],
                               sm_filename_relative = ''C.sol''\<rparr>\<rparr>]\<rparr>] \<and>
   apply_custom_rules ''C.sol'' (Some (''require(tx.origin == owner);'' @ [CHR 0x0A])) =
     apply_custom_rules ''C.sol'' (Some ''require(tx.origin == owner);'')"
  by code_simp

text \<open>
  On Python 3.7 or later the first substitution raises on its template for every exemplar,
  so the pattern-model detector reports nothing, whatever the model and the contract.
\<close>

lemma whitespace_pattern_compiles:
  "re_compile (bs # ''s+'') = Inr (Seq (Seq Space (Star Space)) Eps)"
  by code_simp

lemma ascii_alnum_s: "ascii_alnum CHR ''s''"
  by code_simp

lemma template_rejected: "expand_template Py37plus (bs # ''s+'') = Inl re_error"
  by (simp add: ascii_alnum_s)

lemma core_pattern_of_Py37plus: "core_pattern_of Py37plus pattern = Inl re_error"
  unfolding core_pattern_of_def re_sub_def whitespace_pattern_compiles template_rejected
  by simp

lemma scan_abort: "(\<And>x. step x = Inl e) \<Longrightarrow> fst (scan step [] xs) = []"
  by (cases xs) simp_all

lemma model_findings_Py37plus:
  "model_findings Py37plus model_patterns contract_name content = []"
proof (cases model_patterns)
  case None
  then show ?thesis by (simp add: model_findings_def)
next
  case (Some m)
  have "model_step Py37plus m contract_name x = Inl re_error" for x
    by (simp add: model_step_def core_pattern_of_Py37plus split: prod.splits)
  then have "fst (scan (model_step Py37plus m contract_name) [] xs) = []" for xs
    by (rule scan_abort)
  with Some show ?thesis
    by (simp add: model_findings_def split: option.splits)
qed

lemma core_pattern_of_exemplar:
  "core_pattern_of Py36 ''x.call.value(amount)()'' = Inr escaped_exemplar"
  by code_simp

lemma escaped_exemplar_searches:
  "re_search True escaped_exemplar ''y.call.value(total)()'' = Inr False"
  "re_search True escaped_exemplar ''uint256 public totalSupply;'' = Inr False"
  "re_search True escaped_exemplar ''x.call.value(amount)()'' = Inr True"
  "re_search True escaped_exemplar ''    X.Call.Value(AMOUNT)();'' = Inr True"
  by code_simp+

lemma model_findings_Py36_exemplar:
  "model_findings Py36 (Some reentrancy_model) ''C.sol'' (Some ''y.call.value(total)()'') = []"
  "model_findings Py36 (Some reentrancy_model) ''C.sol''
     (Some ''uint256 public totalSupply;'') = []"
  "model_findings Py36 (Some reentrancy_model) ''C.sol'' (Some ''x.call.value(amount)()'') =
     [exemplar_finding ''x.call.value(amount)()'']"
  "model_findings Py36 (Some reentrancy_model) ''C.sol''
     (Some ''    X.Call.Value(AMOUNT)();'') = [exemplar_finding ''X.Call.Value(AMOUNT)();'']"
  by code_simp+

text \<open>
  C2, as the code has it. The exemplar \<open>x.call.value(amount)()\<close> has no whitespace, so
  whenever the transform produces a pattern for it, that pattern is the escaped exemplar
  itself: nothing in it is generalised. It matches the exemplar line, in any letter case
  and anywhere in a line, and it matches neither \<open>y.call.value(total)()\<close> nor
  \<open>uint256 public totalSupply;\<close>; the detector reports the first and not the other two.
\<close>

theorem pattern_model_literal_exemplar:
  assumes "core_pattern_of py ''x.call.value(amount)()'' = Inr p"
  shows "p = escaped_exemplar \<and>
         re_search True p ''x.call.value(amount)()'' = Inr True \<and>
         re_search True p ''    X.Call.Value(AMOUNT)();'' = Inr True \<and>
         re_search True p ''y.call.value(total)()'' = Inr False \<and>
         re_search True p ''uint256 public totalSupply;'' = Inr False \<and>
         model_findings py (Some reentrancy_model) ''C.sol'' (Some ''x.call.value(amount)()'') =
           [exemplar_finding ''x.call.value(amount)()''] \<and>
         model_findings py (Some reentrancy_model) ''C.sol''
           (Some ''    X.Call.Value(AMOUNT)();'') = [exemplar_finding ''X.Call.Value(AMOUNT)();''] \<and>
         model_findings py (Some reentrancy_model) ''C.sol'' (Some ''y.call.value(total)()'') = [] \<and>
         model_findings py (Some reentrancy_model) ''C.sol''
           (Some ''uint256 public totalSupply;'') = []"
proof -
  from assms have py: "py = Py36"
    by (cases py) (simp_all add: core_pattern_of_Py37plus)
  with assms have "p = escaped_exemplar"
    by (simp add: core_pattern_of_exemplar)
  with py show ?thesis
    by (simp add: escaped_exemplar_searches model_findings_Py36_exemplar)
qed

theorem pattern_model_literal_exemplar_witness:
  "core_pattern_of Py36 ''x.call.value(amount)()'' = Inr escaped_exemplar \<and>
   re_search True escaped_exemplar ''x.call.value(amount)()'' = Inr True \<and>
   re_search True escaped_exemplar ''y.call.value(total)()'' = Inr False \<and>
   re_search True escaped_exemplar ''uint256 public totalSupply;'' = Inr False \<and>
   model_findings Py36 (Some reentrancy_model) ''C.sol'' (Some ''y.call.value(total)()'') = []"
  using pattern_model_literal_exemplar [OF core_pattern_of_exemplar]
  by (simp add: core_pattern_of_exemplar)

text \<open>
  C2 as stated fails: for the exemplar \<open>x.call.value(amount)()\<close> under \<open>reentrancy\<close>, the line
  \<open>y.call.value(total)()\<close> gives no finding, whether the replacement templates are taken as
  they stand or rejected.
\<close>

theorem pattern_model_renamed_line_counterexample:
  "model_findings Py36 (Some reentrancy_model) ''C.sol'' (Some ''y.call.value(total)()'') = [] \<and>
   model_findings Py37plus (Some reentrancy_model) ''C.sol'' (Some ''y.call.value(total)()'') = []"
  by (simp add: model_findings_Py36_exemplar model_findings_Py37plus)

section \<open>The claims about training\<close>

lemma lines_for_Nil: "lines_for [] t = []"
  by (simp add: lines_for_def)

lemma lines_for_open_key: "lines_for (open_key t cp) t' = lines_for cp t'"
  using map_of_eq_None_iff [of cp t]
  by (auto simp: open_key_def lines_for_def map_of_snoc_new simp del: map_of_append)

lemma open_key_mem: "t \<in> fst ` set (open_key t cp)"
  by (auto simp: open_key_def)

lemma lines_for_modify:
  "t \<in> fst ` set cp \<Longrightarrow>
     lines_for (dict_modify t (\<lambda>l. l @ [x]) cp) t' =
       (if t' = t then lines_for cp t @ [x] else lines_for cp t')"
  using map_of_eq_None_iff [of cp t]
  by (auto simp: lines_for_def map_of_dict_modify)

lemma learn_element_skip: "\<not> learnable e \<Longrightarrow> learn_element t cp e = cp"
  by (auto simp: learn_element_def learnable_def Let_def)

lemma learn_element_learn:
  "learnable e \<Longrightarrow>
     learn_element t cp e =
       (if code_line_of e \<notin> set (lines_for (open_key t cp) t)
        then dict_modify t (\<lambda>l. l @ [code_line_of e]) (open_key t cp) else open_key t cp)"
  by (auto simp: learn_element_def learnable_def Let_def open_key_def lines_for_def)

lemma learn_element_lines:
  "set (lines_for (learn_element t cp e) t') =
     set (lines_for cp t') \<union> (if t' = t \<and> learnable e then {code_line_of e} else {})"
proof (cases "learnable e")
  case False
  then show ?thesis by (simp add: learn_element_skip)
next
  case True
  then show ?thesis
    by (auto simp: learn_element_learn lines_for_modify open_key_mem lines_for_open_key)
qed

lemma tidy_open_key: "tidy cp \<Longrightarrow> tidy (open_key t cp)"
  by (auto simp: open_key_def tidy_def)

lemma learn_element_tidy:
  assumes "tidy cp"
  shows "tidy (learn_element t cp e)"
proof (cases "learnable e")
  case False
  with assms show ?thesis by (simp add: learn_element_skip)
next
  case True
  let ?cp1 = "open_key t cp"
  have t1: "tidy ?cp1"
    using assms by (rule tidy_open_key)
  show ?thesis
  proof (cases "code_line_of e \<in> set (lines_for ?cp1 t)")
    case True
    with \<open>learnable e\<close> t1 show ?thesis by (simp add: learn_element_learn)
  next
    case False
    have "distinct ls'"
      if h: "(t', ls') \<in> set (dict_modify t (\<lambda>l. l @ [code_line_of e]) ?cp1)" for t' ls'
    proof -
      from dict_modify_values [OF h]
      consider "(t', ls') \<in> set ?cp1"
        | v where "t' = t" "(t, v) \<in> set ?cp1" "ls' = v @ [code_line_of e]"
        by auto
      then show ?thesis
      proof cases
        case 1
        with t1 show ?thesis by (auto simp: tidy_def)
      next
        case 2
        from t1 2 have "map_of ?cp1 t = Some v" by (simp add: tidy_def)
        with False have "code_line_of e \<notin> set v" by (simp add: lines_for_def)
        moreover from t1 2 have "distinct v" by (auto simp: tidy_def)
        ultimately show ?thesis using 2 by simp
      qed
    qed
    moreover have "distinct (map fst (dict_modify t (\<lambda>l. l @ [code_line_of e]) ?cp1))"
      using t1 by (simp add: dict_modify_keys tidy_def)
    ultimately have "tidy (dict_modify t (\<lambda>l. l @ [code_line_of e]) ?cp1)"
      unfolding tidy_def by blast
    with False \<open>learnable e\<close> show ?thesis by (simp add: learn_element_learn)
  qed
qed

lemma foldl_learn_element_lines:
  "set (lines_for (foldl (learn_element t) cp es) t') =
     set (lines_for cp t') \<union>
       (if t' = t then {code_line_of e | e. e \<in> set es \<and> learnable e} else {})"
  by (induction es arbitrary: cp) (auto simp: learn_element_lines)

lemma foldl_learn_element_tidy: "tidy cp \<Longrightarrow> tidy (foldl (learn_element t) cp es)"
  by (induction es arbitrary: cp) (auto simp: learn_element_tidy)

lemma offered_Nil: "offered [] t = {}"
  by (simp add: offered_def)

lemma offered_Cons:
  "offered (f # fs) t =
     (if check_of f = t then {code_line_of e | e. e \<in> set (rf_elements f) \<and> learnable e}
      else {}) \<union> offered fs t"
  by (auto simp: offered_def)

lemma offered_append: "offered (fs @ gs) t = offered fs t \<union> offered gs t"
  by (auto simp: offered_def)

lemma learn_finding_patterns:
  "ts_code_patterns (learn_finding st f) =
     foldl (learn_element (check_of f)) (ts_code_patterns st) (rf_elements f)"
  by (simp add: learn_finding_def Let_def)

lemma foldl_learn_finding_lines:
  "set (lines_for (ts_code_patterns (foldl learn_finding st fs)) t) =
     set (lines_for (ts_code_patterns st) t) \<union> offered fs t"
  by (induction fs arbitrary: st)
     (auto simp: offered_Nil offered_Cons learn_finding_patterns foldl_learn_element_lines)

lemma foldl_learn_finding_tidy:
  "tidy (ts_code_patterns st) \<Longrightarrow> tidy (ts_code_patterns (foldl learn_finding st fs))"
  by (induction fs arbitrary: st) (auto simp: learn_finding_patterns foldl_learn_element_tidy)

lemma learn_file_lines:
  "set (lines_for (ts_code_patterns (learn_file st df)) t) =
     set (lines_for (ts_code_patterns st) t) \<union> offered (findings_of [df]) t"
  by (cases df)
     (auto simp: learn_file_def Let_def findings_of_def foldl_learn_finding_lines
        offered_append offered_Nil split: option.splits)

lemma learn_file_tidy:
  "tidy (ts_code_patterns st) \<Longrightarrow> tidy (ts_code_patterns (learn_file st df))"
  by (cases df) (auto simp: learn_file_def Let_def foldl_learn_finding_tidy split: option.splits)

lemma findings_of_Cons: "findings_of (df # dfs) = findings_of [df] @ findings_of dfs"
  by (simp add: findings_of_def)

lemma foldl_learn_file_lines:
  "set (lines_for (ts_code_patterns (foldl learn_file st dfs)) t) =
     set (lines_for (ts_code_patterns st) t) \<union> offered (findings_of dfs) t"
proof (induction dfs arbitrary: st)
  case Nil
  then show ?case by (simp add: findings_of_def offered_Nil)
next
  case (Cons df dfs)
  have "offered (findings_of (df # dfs)) t =
          offered (findings_of [df]) t \<union> offered (findings_of dfs) t"
    by (subst findings_of_Cons) (simp add: offered_append)
  with Cons show ?case by (simp add: learn_file_lines Un_assoc)
qed

lemma foldl_learn_file_tidy:
  "tidy (ts_code_patterns st) \<Longrightarrow> tidy (ts_code_patterns (foldl learn_file st dfs))"
  by (induction dfs arbitrary: st) (auto simp: learn_file_tidy)

text \<open>
  C8, as the code has it. In the model that the training pass returns, each check type has
  one exemplar list and no list holds a code line twice; every line-typed element of a
  finding of the reports, whose stripped text is longer than 5 characters, is in the list
  of the finding's check type; and every exemplar is such a line.
\<close>

theorem training_exemplars:
  assumes "extract_vulnerability_patterns now detection_files = Some m"
  shows "distinct (map fst (code_patterns (tm_patterns m))) \<and>
         (\<forall>(t, ls) \<in> set (code_patterns (tm_patterns m)). distinct ls) \<and>
         (\<forall>f \<in> set (findings_of detection_files). \<forall>e \<in> set (rf_elements f).
            re_type e = Some ''line'' \<and> 5 < length (code_line_of e) \<longrightarrow>
              (\<exists>ls. (check_of f, ls) \<in> set (code_patterns (tm_patterns m)) \<and>
                    code_line_of e \<in> set ls)) \<and>
         (\<forall>(t, ls) \<in> set (code_patterns (tm_patterns m)). \<forall>l \<in> set ls.
            \<exists>f \<in> set (findings_of detection_files). \<exists>e \<in> set (rf_elements f).
              check_of f = t \<and> re_type e = Some ''line'' \<and> code_line_of e = l \<and> 5 < length l)"
proof -
  let ?st = "foldl learn_file training_init detection_files"
  from assms have cp: "code_patterns (tm_patterns m) = ts_code_patterns ?st"
    by (auto simp: extract_vulnerability_patterns_def Let_def split: if_splits)
  have tidy: "tidy (ts_code_patterns ?st)"
    by (rule foldl_learn_file_tidy) (simp add: training_init_def tidy_def)
  have lines: "set (lines_for (ts_code_patterns ?st) t) = offered (findings_of detection_files) t"
    for t
    by (simp add: foldl_learn_file_lines training_init_def lines_for_Nil)
  have mem: "(t, ls) \<in> set (ts_code_patterns ?st) \<Longrightarrow> lines_for (ts_code_patterns ?st) t = ls"
    for t ls
    using tidy by (simp add: tidy_def lines_for_def)
  have 3: "\<exists>ls. (check_of f, ls) \<in> set (ts_code_patterns ?st) \<and> code_line_of e \<in> set ls"
    if "f \<in> set (findings_of detection_files)" "e \<in> set (rf_elements f)"
       "re_type e = Some ''line''" "5 < length (code_line_of e)" for f e
  proof -
    from that have "code_line_of e \<in> offered (findings_of detection_files) (check_of f)"
      by (auto simp: offered_def learnable_def)
    then have "code_line_of e \<in> set (lines_for (ts_code_patterns ?st) (check_of f))"
      by (simp add: lines)
    then obtain ls
      where "map_of (ts_code_patterns ?st) (check_of f) = Some ls" "code_line_of e \<in> set ls"
      by (cases "map_of (ts_code_patterns ?st) (check_of f)") (auto simp: lines_for_def)
    then show ?thesis by (auto dest: map_of_SomeD)
  qed
  have 4: "\<exists>f \<in> set (findings_of detection_files). \<exists>e \<in> set (rf_elements f).
              check_of f = t \<and> re_type e = Some ''line'' \<and> code_line_of e = l \<and> 5 < length l"
    if "(t, ls) \<in> set (ts_code_patterns ?st)" "l \<in> set ls" for t ls l
  proof -
    from that mem have "l \<in> offered (findings_of detection_files) t"
      by (simp add: lines [symmetric])
    then show ?thesis by (auto simp: offered_def learnable_def)
  qed
  from tidy 3 4 show ?thesis
    unfolding cp tidy_def by blast
qed

lemma example_reports_model:
  "extract_vulnerability_patterns ''2024-01-01 00:00:00'' example_reports =
     Some \<lparr>tm_metadata =
             \<lparr>md_version = ''1.0'', md_creation_date = ''2024-01-01 00:00:00'',
              md_total_contracts_analyzed = 1, md_vulnerable_contracts_analyzed = 0\<rparr>,
           tm_patterns =
             \<lparr>vulnerability_types =
                [(''reentrancy'', \<lparr>vt_count = 2, vt_severity = Some ''High''\<rparr>),
                 (''Low_Level_Call'', \<lparr>vt_count = 1, vt_severity = Some ''Medium''\<rparr>)],
              code_patterns =
                [(''reentrancy'', [''msg.sender.call.value(x)();'']),
                 (''Low_Level_Call'', [''msg.sender.call.value(x)();''])]\<rparr>\<rparr>"
  by code_simp

theorem training_exemplars_witness:
  "map_option (\<lambda>m. code_patterns (tm_patterns m))
     (extract_vulnerability_patterns ''2024-01-01 00:00:00'' example_reports) =
     Some [(''reentrancy'', [''msg.sender.call.value(x)();'']),
           (''Low_Level_Call'', [''msg.sender.call.value(x)();''])] \<and>
   distinct (map fst
     (code_patterns (tm_patterns (the
        (extract_vulnerability_patterns ''2024-01-01 00:00:00'' example_reports)))))"
  using training_exemplars [OF example_reports_model]
  by (simp add: example_reports_model)

text \<open>
  C8 as stated fails: the only code line of these reports, \<open>x++;\<close>, has not been seen, and
  the pass does not append it, because it is not longer than 5 characters.
\<close>

theorem training_short_line_counterexample:
  "findings_of short_line_reports =
     [\<lparr>rf_check = Some ''Integer_Overflow_Underflow_Candidate_Basic'',
       rf_elements = [\<lparr>re_type = Some ''line'', re_name = Some ''x++;''\<rparr>]\<rparr>] \<and>
   map_option (\<lambda>m. code_patterns (tm_patterns m))
     (extract_vulnerability_patterns ''2024-01-01 00:00:00'' short_line_reports) = Some []"
  by code_simp

section \<open>The claims about the adapters\<close>

lemma lowered_keys_oyente:
  "map lower (map fst severity_map_oyente) =
     [''reentrancy'', ''timestamp_dependency'', ''assertion_failure'', ''integer_overflow'',
      ''integer_underflow'', ''money_concurrency'', ''transaction_ordering_dependence'',
      ''parity_multisig_bug'']"
  by code_simp

lemma lowered_keys_train:
  "map lower (map fst severity_map_train) =
     [''reentrancy'', ''reentrancy-eth'', ''reentrancy-no-eth'', ''unchecked-transfer'',
      ''unchecked-lowlevel'', ''unchecked-send'', ''tx-origin'', ''tx_origin_usage'',
      ''timestamp'', ''timestamp_dependency'', ''integer_overflow_underflow_candidate_basic'',
      ''uninitialized-local'', ''uninitialized-storage'', ''unused-return'',
      ''incorrect-equality'', ''shadowing-state'', ''suicidal'', ''arbitrary-send'',
      ''locked-ether'', ''low_level_call'']"
  by code_simp

text \<open>
  C5, as the code has it. An issue type that matches no key of the table of the Oyente
  adapter, in whatever letter case, gets the severity Medium, and one whose lower-case form
  is a key gets the severity of the table; the same holds for the table of the training
  script. Both functions always return a severity.
\<close>

theorem severity_default_medium:
  "(lower t \<notin> set (map lower (map fst severity_map_oyente)) \<longrightarrow>
      get_severity_for_issue t = ''Medium'') \<and>
   (\<forall>sv. map_of severity_map_oyente (lower t) = Some sv \<longrightarrow> get_severity_for_issue t = sv) \<and>
   (lower t \<notin> set (map lower (map fst severity_map_train)) \<longrightarrow>
      get_severity_for_vulnerability t = ''Medium'') \<and>
   (\<forall>sv. map_of severity_map_train (lower t) = Some sv \<longrightarrow>
      get_severity_for_vulnerability t = sv)"
  using map_of_eq_None_iff [of severity_map_oyente "lower t"]
    map_of_eq_None_iff [of severity_map_train "lower t"]
    lower_not_key [of t "map fst severity_map_oyente"]
    lower_not_key [of t "map fst severity_map_train"]
  by (auto simp: get_severity_for_issue_def get_severity_for_vulnerability_def)

theorem severity_default_medium_witness:
  "lower ''Bogus_Issue'' \<notin> set (map lower (map fst severity_map_oyente)) \<and>
   get_severity_for_issue ''Bogus_Issue'' = ''Medium'' \<and>
   lower ''Bogus_Issue'' \<notin> set (map lower (map fst severity_map_train)) \<and>
   get_severity_for_vulnerability ''Bogus_Issue'' = ''Medium'' \<and>
   map_of severity_map_oyente (lower ''Reentrancy'') = Some ''High'' \<and>
   get_severity_for_issue ''Reentrancy'' = ''High'' \<and>
   map_of severity_map_train (lower ''Reentrancy'') = Some ''High'' \<and>
   get_severity_for_vulnerability ''Reentrancy'' = ''High''"
  using severity_default_medium [of "''Bogus_Issue''"]
    severity_default_medium [of "''Reentrancy''"]
  unfolding lowered_keys_oyente lowered_keys_train
  by (simp add: lower_examples severity_map_oyente_def severity_map_train_def)

text \<open>
  C5 as stated fails: the issue type \<open>Bogus_Issue\<close> is in neither table, and both mappings
  answer Medium for it, not Unknown.
\<close>

theorem severity_unknown_counterexample:
  "lower ''Bogus_Issue'' \<notin> set (map lower (map fst severity_map_oyente)) \<and>
   get_severity_for_issue ''Bogus_Issue'' \<noteq> ''Unknown'' \<and>
   lower ''Bogus_Issue'' \<notin> set (map lower (map fst severity_map_train)) \<and>
   get_severity_for_vulnerability ''Bogus_Issue'' \<noteq> ''Unknown''"
  unfolding lowered_keys_oyente lowered_keys_train
  by (simp add: get_severity_for_issue_def get_severity_for_vulnerability_def lower_examples
      severity_map_oyente_def severity_map_train_def)

lemma strip_Nil: "strip [] = []"
  by (simp add: strip_def)

lemma strip_nonblank: "s \<noteq> [] \<Longrightarrow> \<not> isspace (hd s) \<Longrightarrow> strip s \<noteq> []"
proof -
  assume "s \<noteq> []" and h: "\<not> isspace (hd s)"
  then obtain c cs where s: "s = c # cs" by (cases s) auto
  with h have "dropWhile isspace s = c # cs" by simp
  moreover have "dropWhile isspace (rev (c # cs)) \<noteq> []"
    using h s by (auto simp: dropWhile_eq_Nil_conv)
  ultimately show ?thesis by (simp add: strip_def)
qed

lemma strip_replicate: "0 < n \<Longrightarrow> \<not> isspace c \<Longrightarrow> strip (replicate n c) \<noteq> []"
  by (rule strip_nonblank) (cases n; simp)+

lemma length_long_digits: "length long_digits = 4301"
  by (simp add: long_digits_def)

lemma not_space_examples: "\<not> isspace CHR ''{''" "\<not> isspace CHR ''=''" "\<not> isspace CHR ''[''"
  by code_simp+

lemma show_nat_examples: "show_nat 4300 = ''4300''" "show_nat 4301 = ''4301''"
  by simp_all

lemma py_int_within:
  "\<not> (640 < length ds \<and> 0 < lim \<and> lim < length ds) \<Longrightarrow> \<exists>n. py_int lim ds = Inr n"
  by (simp add: py_int_def)

lemma fallback_issues_complete:
  "(\<forall>m \<in> set ms. \<forall>ds. snd (snd m) = Some ds \<longrightarrow>
       \<not> (640 < length ds \<and> 0 < lim \<and> lim < length ds)) \<Longrightarrow>
   \<exists>issues. fallback_issues lim ms = Inr issues \<and> length issues = length ms"
proof (induction ms)
  case Nil
  then show ?case by simp
next
  case (Cons m ms)
  obtain t c d where m: "m = (t, c, d)" by (cases m) auto
  have "\<exists>i. fallback_issue lim m = Inr i"
  proof (cases d)
    case None
    then show ?thesis by (simp add: fallback_issue_def m)
  next
    case (Some ds)
    with Cons.prems m have "\<not> (640 < length ds \<and> 0 < lim \<and> lim < length ds)"
      by auto
    then obtain n where "py_int lim ds = Inr n"
      using py_int_within by blast
    with Some show ?thesis by (simp add: fallback_issue_def m)
  qed
  moreover from Cons obtain issues where "fallback_issues lim ms = Inr issues" "length issues = length ms"
    by auto
  ultimately show ?case by auto
qed

lemma long_line_raises:
  "fallback_issues 4300 long_line_matches =
     Inl (ValueError ''Exceeds the limit (4300 digits) for integer string conversion: value has 4301 digits; use sys.set_int_max_str_digits() to increase the limit'')"
  by (simp add: long_line_matches_def fallback_issue_def py_int_def length_long_digits
      show_nat_examples del: show_nat.simps)

lemma analyze_Completed:
  "analyze lim capitalize path True (Completed returncode stdout stderr) loaded matches =
     (if returncode \<noteq> 0 \<and> stdout = [] then error_result (''Mythril analysis failed: '' @ stderr)
      else (case parse_results lim capitalize stdout loaded matches of
              Inl e \<Rightarrow> error_result (''Error running Mythril: '' @ str_of e)
            | Inr results \<Rightarrow> results\<lparr>tr_success := Some True\<rparr>))"
  by (auto simp: analyze_def error_result_def no_result_def split: sum.splits)

lemma parse_results_blank:
  "strip raw_output = [] \<Longrightarrow>
     parse_results lim capitalize raw_output loaded matches =
       Inr \<lparr>tr_tool = Some ''Mythril'', tr_issues = Some [], tr_raw_output = None,
            tr_error_parsing = None, tr_error = None, tr_success = None\<rparr>"
  by (simp add: parse_results_def no_result_def)

lemma parse_results_Raises:
  "strip raw_output \<noteq> [] \<Longrightarrow>
     parse_results lim capitalize raw_output (Raises e) matches = Inl e"
  by (simp add: parse_results_def)

lemma parse_results_fallback:
  "strip raw_output \<noteq> [] \<Longrightarrow>
     parse_results lim capitalize raw_output JSONDecodeError matches =
       (case fallback_issues lim matches of
          Inl e \<Rightarrow> Inl e
        | Inr issues \<Rightarrow>
            Inr \<lparr>tr_tool = Some ''Mythril'', tr_issues = Some issues,
                 tr_raw_output = Some (take 1000 raw_output),
                 tr_error_parsing = Some ''Could not parse Mythril JSON output'',
                 tr_error = None, tr_success = None\<rparr>)"
  by (simp add: parse_results_def no_result_def split: sum.splits)

lemma parse_results_no_error:
  "parse_results lim capitalize raw_output loaded matches = Inr results \<Longrightarrow>
     tr_error results = None"
  by (auto simp: parse_results_def no_result_def Let_def
      split: if_splits json_outcome.splits sum.splits)

lemma error_result_fields:
  "tr_success (error_result msg) = Some False" "tr_error (error_result msg) = Some msg"
  by (simp_all add: error_result_def)

text \<open>
  C3, as the code has it. \<open>analyze\<close> always returns a result for a finished process. When
  the process failed without output, or parsing the output raises (\<open>json.loads\<close> raises
  something other than \<open>JSONDecodeError\<close>, or the conversion of a line number in the textual
  fallback raises), the result has \<open>success\<close> false and a non-empty \<open>error\<close>. Otherwise the
  result has \<open>success\<close> true and no \<open>error\<close>: for a blank output it has no issues and no
  diagnostics, and for an output that \<open>json.loads\<close> rejects with \<open>JSONDecodeError\<close> it has
  the issues of the textual fallback, the first 1000 characters of the output, and the
  message \<open>Could not parse Mythril JSON output\<close> in \<open>error_parsing\<close>. The fallback completes
  when no line number exceeds the interpreter's limit on digits.
\<close>

theorem parse_failure_outcomes:
  "(returncode \<noteq> 0 \<and> raw_output = [] \<longrightarrow>
      analyze lim capitalize path True (Completed returncode raw_output stderr) loaded matches =
        error_result (''Mythril analysis failed: '' @ stderr)) \<and>
   (\<not> (returncode \<noteq> 0 \<and> raw_output = []) \<and> strip raw_output = [] \<longrightarrow>
      parse_results lim capitalize raw_output loaded matches =
        Inr \<lparr>tr_tool = Some ''Mythril'', tr_issues = Some [], tr_raw_output = None,
             tr_error_parsing = None, tr_error = None, tr_success = None\<rparr> \<and>
      analyze lim capitalize path True (Completed returncode raw_output stderr) loaded matches =
        \<lparr>tr_tool = Some ''Mythril'', tr_issues = Some [], tr_raw_output = None,
         tr_error_parsing = None, tr_error = None, tr_success = Some True\<rparr>) \<and>
   (strip raw_output \<noteq> [] \<and> loaded = Raises e \<longrightarrow>
      parse_results lim capitalize raw_output loaded matches = Inl e \<and>
      analyze lim capitalize path True (Completed returncode raw_output stderr) loaded matches =
        error_result (''Error running Mythril: '' @ str_of e)) \<and>
   (strip raw_output \<noteq> [] \<and> loaded = JSONDecodeError \<and> fallback_issues lim matches = Inl e \<longrightarrow>
      parse_results lim capitalize raw_output loaded matches = Inl e \<and>
      analyze lim capitalize path True (Completed returncode raw_output stderr) loaded matches =
        error_result (''Error running Mythril: '' @ str_of e)) \<and>
   (strip raw_output \<noteq> [] \<and> loaded = JSONDecodeError \<and>
    fallback_issues lim matches = Inr issues \<longrightarrow>
      parse_results lim capitalize raw_output loaded matches =
        Inr \<lparr>tr_tool = Some ''Mythril'', tr_issues = Some issues,
             tr_raw_output = Some (take 1000 raw_output),
             tr_error_parsing = Some ''Could not parse Mythril JSON output'',
             tr_error = None, tr_success = None\<rparr> \<and>
      analyze lim capitalize path True (Completed returncode raw_output stderr) loaded matches =
        \<lparr>tr_tool = Some ''Mythril'', tr_issues = Some issues,
         tr_raw_output = Some (take 1000 raw_output),
         tr_error_parsing = Some ''Could not parse Mythril JSON output'',
         tr_error = None, tr_success = Some True\<rparr>) \<and>
   ((\<forall>m \<in> set matches. \<forall>ds. snd (snd m) = Some ds \<longrightarrow>
        \<not> (640 < length ds \<and> 0 < lim \<and> lim < length ds)) \<longrightarrow>
      (\<exists>found. fallback_issues lim matches = Inr found \<and> length found = length matches)) \<and>
   (tr_success (analyze lim capitalize path True (Completed returncode raw_output stderr)
                  loaded matches) = Some False \<longrightarrow>
      (\<exists>msg. tr_error (analyze lim capitalize path True
                          (Completed returncode raw_output stderr) loaded matches) = Some msg \<and>
             msg \<noteq> [])) \<and>
   (tr_success (analyze lim capitalize path True (Completed returncode raw_output stderr)
                  loaded matches) = Some True \<longrightarrow>
      tr_error (analyze lim capitalize path True (Completed returncode raw_output stderr)
                  loaded matches) = None)"
proof -
  let ?r = "analyze lim capitalize path True (Completed returncode raw_output stderr) loaded matches"
  let ?p = "parse_results lim capitalize raw_output loaded matches"
  have nonblank: "strip raw_output \<noteq> [] \<Longrightarrow> raw_output \<noteq> []"
    by (auto simp: strip_Nil)
  have 7: "tr_success ?r = Some False \<longrightarrow> (\<exists>msg. tr_error ?r = Some msg \<and> msg \<noteq> [])"
    by (cases ?p) (simp_all add: analyze_Completed error_result_fields)
  have 8: "tr_success ?r = Some True \<longrightarrow> tr_error ?r = None"
    by (cases ?p) (simp_all add: analyze_Completed error_result_fields parse_results_no_error)
  show ?thesis
    apply (intro conjI impI)
    subgoal by (auto simp: analyze_Completed)
    subgoal by (auto simp: parse_results_blank)
    subgoal by (auto simp: analyze_Completed parse_results_blank)
    subgoal by (auto simp: parse_results_Raises)
    subgoal using nonblank by (auto simp: analyze_Completed parse_results_Raises)
    subgoal by (auto simp: parse_results_fallback)
    subgoal using nonblank by (auto simp: analyze_Completed parse_results_fallback)
    subgoal by (auto simp: parse_results_fallback)
    subgoal using nonblank by (auto simp: analyze_Completed parse_results_fallback)
    subgoal using fallback_issues_complete [of matches lim] by blast
    subgoal using 7 by blast
    subgoal using 8 by blast
    done
qed

theorem parse_failure_outcomes_witness:
  "analyze 4300 (\<lambda>s. s) ''C.sol'' True (Completed 1 [] ''myth: error'') JSONDecodeError [] =
     error_result ''Mythril analysis failed: myth: error'' \<and>
   analyze 4300 (\<lambda>s. s) ''C.sol'' True (Completed 0 [] []) JSONDecodeError [] =
     \<lparr>tr_tool = Some ''Mythril'', tr_issues = Some [], tr_raw_output = None,
      tr_error_parsing = None, tr_error = None, tr_success = Some True\<rparr> \<and>
   analyze 4300 (\<lambda>s. s) ''C.sol'' True (Completed 0 deep_output [])
       (Raises (RecursionError ''maximum recursion depth exceeded while decoding a JSON array from a unicode string'')) [] =
     error_result ''Error running Mythril: maximum recursion depth exceeded while decoding a JSON array from a unicode string'' \<and>
   analyze 4300 (\<lambda>s. s) ''C.sol'' True (Completed 0 long_line_output []) JSONDecodeError
       long_line_matches =
     error_result ''Error running Mythril: Exceeds the limit (4300 digits) for integer string conversion: value has 4301 digits; use sys.set_int_max_str_digits() to increase the limit'' \<and>
   analyze 4300 (\<lambda>s. s) ''C.sol'' True (Completed 0 ''{not json'' []) JSONDecodeError [] =
     \<lparr>tr_tool = Some ''Mythril'', tr_issues = Some [], tr_raw_output = Some ''{not json'',
      tr_error_parsing = Some ''Could not parse Mythril JSON output'',
      tr_error = None, tr_success = Some True\<rparr>"
proof -
  have a: "strip deep_output \<noteq> []"
    unfolding deep_output_def by (rule strip_replicate) (simp_all add: not_space_examples)
  have b: "strip long_line_output \<noteq> []"
    by (rule strip_nonblank) (simp_all add: long_line_output_def not_space_examples)
  have c: "strip ''{not json'' \<noteq> []"
    by (rule strip_nonblank) (simp_all add: not_space_examples)
  show ?thesis
    using
      parse_failure_outcomes [of 1 "[]" 4300 "\<lambda>s. s" "''C.sol''" "''myth: error''" JSONDecodeError "[]"]
      parse_failure_outcomes [of 0 "[]" 4300 "\<lambda>s. s" "''C.sol''" "[]" JSONDecodeError "[]"]
      parse_failure_outcomes [of 0 deep_output 4300 "\<lambda>s. s" "''C.sol''" "[]"
        "Raises (RecursionError ''maximum recursion depth exceeded while decoding a JSON array from a unicode string'')"
        "[]" "RecursionError ''maximum recursion depth exceeded while decoding a JSON array from a unicode string''"]
      parse_failure_outcomes [of 0 long_line_output 4300 "\<lambda>s. s" "''C.sol''" "[]" JSONDecodeError
        long_line_matches
        "ValueError ''Exceeds the limit (4300 digits) for integer string conversion: value has 4301 digits; use sys.set_int_max_str_digits() to increase the limit''"]
      parse_failure_outcomes [of 0 "''{not json''" 4300 "\<lambda>s. s" "''C.sol''" "[]" JSONDecodeError "[]" _ "[]"]
    by (simp add: a b c long_line_raises strip_Nil)
qed

text \<open>
  C3 as stated fails: on the output \<open>{not json\<close>, which \<open>json.loads\<close> rejects and in which
  the fallback pattern finds nothing, \<open>analyze\<close> answers with \<open>success\<close> true and without
  the field \<open>error\<close>.
\<close>

theorem analyze_not_json_counterexample:
  "tr_success (analyze 4300 (\<lambda>s. s) ''C.sol'' True (Completed 0 ''{not json'' [])
                 JSONDecodeError []) = Some True \<and>
   tr_error (analyze 4300 (\<lambda>s. s) ''C.sol'' True (Completed 0 ''{not json'' [])
               JSONDecodeError []) = None"
proof -
  have "strip ''{not json'' \<noteq> []"
    by (rule strip_nonblank) (simp_all add: not_space_examples)
  then show ?thesis
    by (simp add: analyze_def parse_results_def no_result_def)
qed

end
